theory Spec2Isabelle
  imports Main
begin

section \<open>Tokens (src/src/peg\_token.py)\<close>

datatype TokenType =
    VAR | IF | ELSE | WHILE | PRINT
  | IDENTIFIER | NUMBER
  | PLUS | MINUS | MUL | DIV | ASSIGN | EQ | NEQ | LT | GT | LTE | GTE | AND | OR
  | SEMICOLON | LPAREN | RPAREN | LBRACE | RBRACE
  | EOF

text \<open>\<open>TokenType.name\<close>: the name of the enum member.\<close>

fun name :: "TokenType \<Rightarrow> string" where
  "name VAR = ''VAR''" | "name IF = ''IF''" | "name ELSE = ''ELSE''"
| "name WHILE = ''WHILE''" | "name PRINT = ''PRINT''"
| "name IDENTIFIER = ''IDENTIFIER''" | "name NUMBER = ''NUMBER''"
| "name PLUS = ''PLUS''" | "name MINUS = ''MINUS''" | "name MUL = ''MUL''"
| "name DIV = ''DIV''" | "name ASSIGN = ''ASSIGN''" | "name EQ = ''EQ''"
| "name NEQ = ''NEQ''" | "name LT = ''LT''" | "name GT = ''GT''"
| "name LTE = ''LTE''" | "name GTE = ''GTE''" | "name AND = ''AND''"
| "name OR = ''OR''" | "name SEMICOLON = ''SEMICOLON''"
| "name LPAREN = ''LPAREN''" | "name RPAREN = ''RPAREN''"
| "name LBRACE = ''LBRACE''" | "name RBRACE = ''RBRACE''" | "name EOF = ''EOF''"

text \<open>
  \<open>class Token\<close>: \<open>value\<close>, \<open>lineno\<close> and \<open>col\<close> default to Python's \<open>None\<close>.
\<close>

record Token =
  type :: TokenType
  "value" :: "string option"
  lineno :: "int option"
  col :: "int option"

text \<open>\<open>Token(TokenType.EOF)\<close>, the end-of-stream sentinel the parser synthesises.\<close>

definition Token_EOF :: Token where
  "Token_EOF = \<lparr>type = EOF, value = None, lineno = None, col = None\<rparr>"

text \<open>\<open>Token(type, value)\<close>, as the tests build their tokens.\<close>

definition mk_token :: "TokenType \<Rightarrow> string \<Rightarrow> Token" where
  "mk_token ty v = \<lparr>type = ty, value = Some v, lineno = None, col = None\<rparr>"

section \<open>The cursor (src/src/peg\_parser.py, lines 4--35)\<close>

text \<open>
  The parser object: \<open>pos\<close> is set to 0 by the constructor and afterwards only
  incremented or reset to a value it had before, so it is a natural number.
\<close>

record ToyPEGParser =
  tokens :: "Token list"
  pos :: nat
  current_token :: Token

text \<open>\<open>__init__\<close>.\<close>

definition init_parser :: "Token list \<Rightarrow> ToyPEGParser" where
  "init_parser toks =
     \<lparr>tokens = toks, pos = 0,
      current_token = (case toks of [] \<Rightarrow> Token_EOF | tok # _ \<Rightarrow> tok)\<rparr>"

definition advance_to_next_token :: "ToyPEGParser \<Rightarrow> Token \<times> ToyPEGParser" where
  "advance_to_next_token self =
     (let self = self\<lparr>pos := pos self + 1\<rparr>;
          self = (if pos self < length (tokens self)
                  then self\<lparr>current_token := tokens self ! pos self\<rparr>
                  else self\<lparr>current_token := Token_EOF\<rparr>)
      in (current_token self, self))"

text \<open>
  \<open>consume_token\<close>: the second argument is Python's \<open>value=None\<close>; the result is the
  consumed token, or \<open>None\<close> with the parser unchanged.
\<close>

definition consume_token ::
  "TokenType \<Rightarrow> string option \<Rightarrow> ToyPEGParser \<Rightarrow> Token option \<times> ToyPEGParser" where
  "consume_token token_type v self =
     (if type (current_token self) = token_type \<and>
         (v = None \<or> value (current_token self) = v)
      then (let consumed_token = current_token self
            in (Some consumed_token, snd (advance_to_next_token self)))
      else (None, self))"

text \<open>
  The one exception the parser raises and catches: \<open>SyntaxError(message)\<close>, with the
  exception it was raised \<open>from\<close> (its \<open>__cause__\<close>) when there is one.
\<close>

datatype exn = SyntaxError string "exn option"

text \<open>\<open>str\<close> of a Python int, and of an optional field inside an f-string.\<close>

fun digits :: "nat \<Rightarrow> string" where
  "digits n = (if n < 10 then [char_of (48 + n)]
               else digits (n div 10) @ [char_of (48 + n mod 10)])"

definition str_int :: "int \<Rightarrow> string" where
  "str_int i = (if i < 0 then CHR ''-'' # digits (nat (- i)) else digits (nat i))"

definition fmt_int :: "int option \<Rightarrow> string" where
  "fmt_int x = (case x of None \<Rightarrow> ''None'' | Some i \<Rightarrow> str_int i)"

definition fmt_str :: "string option \<Rightarrow> string" where
  "fmt_str x = (case x of None \<Rightarrow> ''None'' | Some s \<Rightarrow> s)"

text \<open>Python's \<open>x or d\<close> on an optional string: \<open>None\<close> and the empty string are falsy.\<close>

definition str_or :: "string option \<Rightarrow> string \<Rightarrow> string" where
  "str_or x d = (case x of None \<Rightarrow> d | Some s \<Rightarrow> (if s = [] then d else s))"

text \<open>
  \<open>consume_token_or_fail\<close>: on a mismatch the parser is left as it is (nothing is
  consumed, nothing is restored) and the SyntaxError carries the formatted message.
\<close>

definition consume_token_or_fail ::
  "TokenType \<Rightarrow> string option \<Rightarrow> string option \<Rightarrow> ToyPEGParser
     \<Rightarrow> (exn + Token) \<times> ToyPEGParser" where
  "consume_token_or_fail token_type v err_msg self =
     (case consume_token token_type v self of
        (Some token, self) \<Rightarrow> (Inr token, self)
      | (None, self) \<Rightarrow>
          (let expected = str_or v (name token_type);
               found = str_or (value (current_token self)) (name (type (current_token self)))
           in (Inl (SyntaxError
                 (str_or err_msg ''Syntax error'' @ ''. Expected '' @ expected @
                  '', found '' @ found @ '' at line '' @
                  fmt_int (lineno (current_token self)) @ '':'' @
                  fmt_int (col (current_token self))) None), self)))"

text \<open>
  The two assignments \<open>self.pos = start_pos; self.current_token = start_token\<close> of every
  rollback.
\<close>

definition restore :: "nat \<Rightarrow> Token \<Rightarrow> ToyPEGParser \<Rightarrow> ToyPEGParser" where
  "restore start_pos start_token self = self\<lparr>pos := start_pos, current_token := start_token\<rparr>"

text \<open>
  The cursor invariant of the data model: the current token is the token at the position,
  or the end-of-stream sentinel when the position is past the end.
\<close>

definition cursor_inv :: "ToyPEGParser \<Rightarrow> bool" where
  "cursor_inv self =
     (current_token self =
        (if pos self < length (tokens self) then tokens self ! pos self else Token_EOF))"


section \<open>Syntax trees\<close>

text \<open>
  The parser builds Python dicts with a \<open>'type'\<close> key. Each kind of node is a constructor
  with the node's other fields in the order the source writes them (\<open>name\<close>, \<open>init\<close>;
  \<open>name\<close>, \<open>value\<close>; \<open>cond\<close>, \<open>if-body\<close>, \<open>else-body\<close>; \<open>cond\<close>, \<open>body\<close>;
  \<open>expression\<close>; \<open>op\<close>, \<open>left\<close>, \<open>right\<close>; \<open>op\<close>, \<open>argument\<close>; \<open>value\<close>; \<open>name\<close>); \<open>Empty\<close> is the empty
  dict \<open>{}\<close>, the only node that is falsy in Python. The value of a \<open>number\<close> node is
  what Python's \<open>float\<close> returns, a type the theory leaves open as \<open>'f\<close>.
\<close>

datatype 'f ast =
    Empty
  | Program (body: "'f ast list")
  | Block (body: "'f ast list")
  | VarDecl "string option" (init: "'f ast")
  | Assignment "string option" "'f ast"
  | IfStmt "'f ast" "'f ast" (else_body: "'f ast")
  | WhileLoop "'f ast" "'f ast"
  | PrintStmt "'f ast"
  | BinaryExpr string "'f ast" "'f ast"
  | UnaryExpr "string option" "'f ast"
  | Number 'f
  | Identifier "string option"

text \<open>
  The outcome of a call: \<open>Some (Inr result, parser)\<close> when it returns,
  \<open>Some (Inl e, parser)\<close> when it raises the SyntaxError \<open>e\<close>, with the parser as the
  call leaves it. \<open>None\<close> is a call that comes back with neither: it does not end, or an
  exception that is no SyntaxError (raised by \<open>float\<close>) passes through every handler.
\<close>

type_synonym 'a outcome = "((exn + 'a) \<times> ToyPEGParser) option"

type_synonym 'f symbol = "ToyPEGParser \<Rightarrow> 'f ast outcome"

section \<open>PEG combinators (lines 42--137)\<close>

fun sequence_loop ::
  "nat \<Rightarrow> Token \<Rightarrow> 'f ast list \<Rightarrow> 'f symbol list \<Rightarrow> ToyPEGParser \<Rightarrow> 'f ast list outcome" where
  "sequence_loop start_pos start_token results [] self = Some (Inr results, self)"
| "sequence_loop start_pos start_token results (symbol # symbols) self =
     (case symbol self of
        None \<Rightarrow> None
      | Some (Inl se, self) \<Rightarrow>
          Some (Inl (SyntaxError ''Syntax error. One symbol parsing failed within sequence.''
                       (Some se)),
                restore start_pos start_token self)
      | Some (Inr result, self) \<Rightarrow>
          sequence_loop start_pos start_token (results @ [result]) symbols self)"

definition parse_sequence :: "'f symbol list \<Rightarrow> ToyPEGParser \<Rightarrow> 'f ast list outcome" where
  "parse_sequence symbols self =
     (if symbols = [] then Some (Inl (SyntaxError ''Syntax error. Empty sequence.'' None), self)
      else let start_pos = pos self; start_token = current_token self
           in sequence_loop start_pos start_token [] symbols self)"

fun ordered_choice_loop ::
  "nat \<Rightarrow> Token \<Rightarrow> 'f symbol list \<Rightarrow> ToyPEGParser \<Rightarrow> 'f ast list outcome" where
  "ordered_choice_loop start_pos start_token [] self = Some (Inr [], self)"
| "ordered_choice_loop start_pos start_token (symbol # symbols) self =
     (case symbol self of
        None \<Rightarrow> None
      | Some (Inl se, self) \<Rightarrow>
          ordered_choice_loop start_pos start_token symbols (restore start_pos start_token self)
      | Some (Inr result, self) \<Rightarrow> Some (Inr [result], self))"

definition parse_ordered_choice ::
  "'f symbol list \<Rightarrow> ToyPEGParser \<Rightarrow> 'f ast list outcome" where
  "parse_ordered_choice symbols self =
     (if symbols = []
      then Some (Inl (SyntaxError ''Syntax error. Empty ordered choice.'' None), self)
      else let start_pos = pos self; start_token = current_token self
           in ordered_choice_loop start_pos start_token symbols self)"

text \<open>
  The \<open>while True\<close> loop of \<open>parse_zero_or_more\<close>, with the list \<open>results\<close> it appends
  to. Nothing bounds the number of iterations, so the loop is a partial function.
\<close>

partial_function (option) zero_or_more_loop ::
  "'f symbol \<Rightarrow> 'f ast list \<Rightarrow> ToyPEGParser \<Rightarrow> ((exn + 'f ast list) \<times> ToyPEGParser) option" where
  "zero_or_more_loop symbol results self =
     (let start_pos = pos self; start_token = current_token self
      in case symbol self of
           None \<Rightarrow> None
         | Some (Inl se, self) \<Rightarrow> Some (Inr results, restore start_pos start_token self)
         | Some (Inr result, self) \<Rightarrow>
             (let results = results @ [result]
              in if start_pos = pos self then Some (Inr results, self)
                 else zero_or_more_loop symbol results self))"

declare zero_or_more_loop.simps [code]

definition parse_zero_or_more :: "'f symbol \<Rightarrow> ToyPEGParser \<Rightarrow> 'f ast list outcome" where
  "parse_zero_or_more symbol self = zero_or_more_loop symbol [] self"

text \<open>
  \<open>parse_one_or_more\<close>: a symbol returns a dict, so \<open>isinstance(first_result, dict)\<close>
  holds and \<open>isinstance(rest_results, dict)\<close> does not.
\<close>

definition parse_one_or_more :: "'f symbol \<Rightarrow> ToyPEGParser \<Rightarrow> 'f ast list outcome" where
  "parse_one_or_more symbol self =
     (let start_pos = pos self; start_token = current_token self
      in case symbol self of
           None \<Rightarrow> None
         | Some (Inl se, self) \<Rightarrow>
             Some (Inl (SyntaxError
                          ''Syntax error. 1st symbol parsing failed in 'one_or_more'.''
                          (Some se)),
                   restore start_pos start_token self)
         | Some (Inr first_result, self) \<Rightarrow>
             if first_result = Empty then Some (Inr [], self)
             else (let first_result = [first_result]
                   in case parse_zero_or_more symbol self of
                        None \<Rightarrow> None
                      | Some (Inl e, self) \<Rightarrow> Some (Inl e, self)
                      | Some (Inr rest_results, self) \<Rightarrow>
                          if rest_results = [] then Some (Inr first_result, self)
                          else Some (Inr (first_result @ rest_results), self)))"


section \<open>Grammar rules (lines 141--516)\<close>

text \<open>\<open>'{op}'\<close> inside an f-string: the text between two apostrophes.\<close>

definition quoted :: "string \<Rightarrow> string" where
  "quoted s = CHR 0x27 # s @ [CHR 0x27]"

text \<open>
  The rules are methods that call each other through \<open>self\<close>. Each rule is first written
  as in the source, with the rules it calls as arguments (\<open>self_primary\<close> for
  \<open>self.primary\<close>); the recursion is closed below, in \<open>primary\<close> and \<open>statement\<close>.
  A rule's \<open>while\<close> loop is the function \<open>_loop\<close> next to it, which carries the
  loop's variables; like \<open>parse_zero_or_more\<close> it is a partial function.
\<close>

subsection \<open>Expressions\<close>

text \<open>\<open>multiplicative\<close> (lines 447--475), over the rule \<open>primary\<close> it calls (the argument \<open>self_...\<close>).\<close>

partial_function (option) multiplicative_loop ::
  "'f symbol \<Rightarrow> nat \<Rightarrow> Token \<Rightarrow> 'f ast \<Rightarrow> ToyPEGParser \<Rightarrow> ((exn + 'f ast) \<times> ToyPEGParser) option" where
  "multiplicative_loop self_primary start_pos start_token left self =
     (case (case consume_token MUL (Some ''*'') self of
              (Some _, self) \<Rightarrow> (Some ''*'', self)
            | (None, self) \<Rightarrow>
           (case consume_token DIV (Some ''/'') self of
              (Some _, self) \<Rightarrow> (Some ''/'', self)
            | (None, self) \<Rightarrow> (None, self))) of
        (None, self) \<Rightarrow> Some (Inr left, self)
      | (Some op, self) \<Rightarrow>
          (case self_primary self of
             None \<Rightarrow> None
           | Some (Inl se, self) \<Rightarrow>
               Some (Inl (SyntaxError (''Expected expression after '' @ quoted op) (Some se)),
                     restore start_pos start_token self)
           | Some (Inr right, self) \<Rightarrow>
               multiplicative_loop self_primary start_pos start_token (BinaryExpr op left right) self))"

declare multiplicative_loop.simps [code]

definition multiplicative :: "'f symbol \<Rightarrow> 'f symbol" where
  "multiplicative self_primary self =
     (let start_pos = pos self; start_token = current_token self in
      case self_primary self of
        None \<Rightarrow> None
      | Some (Inl se, self) \<Rightarrow>
          Some (Inl (SyntaxError (''Expected expression before '*' or '' @ quoted ''/'') (Some se)),
                restore start_pos start_token self)
      | Some (Inr left, self) \<Rightarrow> multiplicative_loop self_primary start_pos start_token left self)"

text \<open>\<open>additive\<close> (lines 417--445), over the rule \<open>multiplicative\<close> it calls (the argument \<open>self_...\<close>).\<close>

partial_function (option) additive_loop ::
  "'f symbol \<Rightarrow> nat \<Rightarrow> Token \<Rightarrow> 'f ast \<Rightarrow> ToyPEGParser \<Rightarrow> ((exn + 'f ast) \<times> ToyPEGParser) option" where
  "additive_loop self_multiplicative start_pos start_token left self =
     (case (case consume_token PLUS (Some ''+'') self of
              (Some _, self) \<Rightarrow> (Some ''+'', self)
            | (None, self) \<Rightarrow>
           (case consume_token MINUS (Some ''-'') self of
              (Some _, self) \<Rightarrow> (Some ''-'', self)
            | (None, self) \<Rightarrow> (None, self))) of
        (None, self) \<Rightarrow> Some (Inr left, self)
      | (Some op, self) \<Rightarrow>
          (case self_multiplicative self of
             None \<Rightarrow> None
           | Some (Inl se, self) \<Rightarrow>
               Some (Inl (SyntaxError (''Expected expression after '' @ quoted op) (Some se)),
                     restore start_pos start_token self)
           | Some (Inr right, self) \<Rightarrow>
               additive_loop self_multiplicative start_pos start_token (BinaryExpr op left right) self))"

declare additive_loop.simps [code]

definition additive :: "'f symbol \<Rightarrow> 'f symbol" where
  "additive self_multiplicative self =
     (let start_pos = pos self; start_token = current_token self in
      case self_multiplicative self of
        None \<Rightarrow> None
      | Some (Inl se, self) \<Rightarrow>
          Some (Inl (SyntaxError (''Expected expression before '<', '>', '<=', or '' @ quoted ''>='') (Some se)),
                restore start_pos start_token self)
      | Some (Inr left, self) \<Rightarrow> additive_loop self_multiplicative start_pos start_token left self)"

text \<open>\<open>relational\<close> (lines 382--415), over the rule \<open>additive\<close> it calls (the argument \<open>self_...\<close>).\<close>

partial_function (option) relational_loop ::
  "'f symbol \<Rightarrow> nat \<Rightarrow> Token \<Rightarrow> 'f ast \<Rightarrow> ToyPEGParser \<Rightarrow> ((exn + 'f ast) \<times> ToyPEGParser) option" where
  "relational_loop self_additive start_pos start_token left self =
     (case (case consume_token LT (Some ''<'') self of
              (Some _, self) \<Rightarrow> (Some ''<'', self)
            | (None, self) \<Rightarrow>
           (case consume_token GT (Some ''>'') self of
              (Some _, self) \<Rightarrow> (Some ''>'', self)
            | (None, self) \<Rightarrow>
           (case consume_token LTE (Some ''<='') self of
              (Some _, self) \<Rightarrow> (Some ''<='', self)
            | (None, self) \<Rightarrow>
           (case consume_token GTE (Some ''>='') self of
              (Some _, self) \<Rightarrow> (Some ''>='', self)
            | (None, self) \<Rightarrow> (None, self))))) of
        (None, self) \<Rightarrow> Some (Inr left, self)
      | (Some op, self) \<Rightarrow>
          (case self_additive self of
             None \<Rightarrow> None
           | Some (Inl se, self) \<Rightarrow>
               Some (Inl (SyntaxError (''Expected expression after '' @ quoted op) (Some se)),
                     restore start_pos start_token self)
           | Some (Inr right, self) \<Rightarrow>
               relational_loop self_additive start_pos start_token (BinaryExpr op left right) self))"

declare relational_loop.simps [code]

definition relational :: "'f symbol \<Rightarrow> 'f symbol" where
  "relational self_additive self =
     (let start_pos = pos self; start_token = current_token self in
      case self_additive self of
        None \<Rightarrow> None
      | Some (Inl se, self) \<Rightarrow>
          Some (Inl (SyntaxError (''Expected expression before '<', '>', '<=', or '' @ quoted ''>='') (Some se)),
                restore start_pos start_token self)
      | Some (Inr left, self) \<Rightarrow> relational_loop self_additive start_pos start_token left self)"

text \<open>\<open>equality\<close> (lines 351--380), over the rule \<open>relational\<close> it calls (the argument \<open>self_...\<close>).\<close>

partial_function (option) equality_loop ::
  "'f symbol \<Rightarrow> nat \<Rightarrow> Token \<Rightarrow> 'f ast \<Rightarrow> ToyPEGParser \<Rightarrow> ((exn + 'f ast) \<times> ToyPEGParser) option" where
  "equality_loop self_relational start_pos start_token left self =
     (case (case consume_token EQ (Some ''=='') self of
              (Some _, self) \<Rightarrow> (Some ''=='', self)
            | (None, self) \<Rightarrow>
           (case consume_token NEQ (Some ''!='') self of
              (Some _, self) \<Rightarrow> (Some ''!='', self)
            | (None, self) \<Rightarrow> (None, self))) of
        (None, self) \<Rightarrow> Some (Inr left, self)
      | (Some op, self) \<Rightarrow>
          (case self_relational self of
             None \<Rightarrow> None
           | Some (Inl se, self) \<Rightarrow>
               Some (Inl (SyntaxError (''Expected expression after '' @ quoted op) (Some se)),
                     restore start_pos start_token self)
           | Some (Inr right, self) \<Rightarrow>
               equality_loop self_relational start_pos start_token (BinaryExpr op left right) self))"

declare equality_loop.simps [code]

definition equality :: "'f symbol \<Rightarrow> 'f symbol" where
  "equality self_relational self =
     (let start_pos = pos self; start_token = current_token self in
      case self_relational self of
        None \<Rightarrow> None
      | Some (Inl se, self) \<Rightarrow>
          Some (Inl (SyntaxError (''Expected expression before '==' or '' @ quoted ''!='') (Some se)),
                restore start_pos start_token self)
      | Some (Inr left, self) \<Rightarrow> equality_loop self_relational start_pos start_token left self)"

text \<open>\<open>logical_and\<close> (lines 327--349), over the rule \<open>equality\<close> it calls (the argument \<open>self_...\<close>).\<close>

partial_function (option) logical_and_loop ::
  "'f symbol \<Rightarrow> nat \<Rightarrow> Token \<Rightarrow> 'f ast \<Rightarrow> ToyPEGParser \<Rightarrow> ((exn + 'f ast) \<times> ToyPEGParser) option" where
  "logical_and_loop self_equality start_pos start_token left self =
     (case consume_token AND (Some ''&&'') self of
        (None, self) \<Rightarrow> Some (Inr left, self)
      | (Some _, self) \<Rightarrow>
          (case self_equality self of
             None \<Rightarrow> None
           | Some (Inl se, self) \<Rightarrow>
               Some (Inl (SyntaxError (''Expected expression after '' @ quoted ''&&'')
                            (Some se)),
                     restore start_pos start_token self)
           | Some (Inr right, self) \<Rightarrow>
               logical_and_loop self_equality start_pos start_token
                 (BinaryExpr ''&&'' left right) self))"

declare logical_and_loop.simps [code]

definition logical_and :: "'f symbol \<Rightarrow> 'f symbol" where
  "logical_and self_equality self =
     (let start_pos = pos self; start_token = current_token self in
      case self_equality self of
        None \<Rightarrow> None
      | Some (Inl se, self) \<Rightarrow>
          Some (Inl (SyntaxError (''Expected expression before '' @ quoted ''&&'') (Some se)),
                restore start_pos start_token self)
      | Some (Inr left, self) \<Rightarrow> logical_and_loop self_equality start_pos start_token left self)"

text \<open>\<open>logical_or\<close> (lines 303--325), over the rule \<open>logical_and\<close> it calls (the argument \<open>self_...\<close>).\<close>

partial_function (option) logical_or_loop ::
  "'f symbol \<Rightarrow> nat \<Rightarrow> Token \<Rightarrow> 'f ast \<Rightarrow> ToyPEGParser \<Rightarrow> ((exn + 'f ast) \<times> ToyPEGParser) option" where
  "logical_or_loop self_logical_and start_pos start_token left self =
     (case consume_token OR (Some ''||'') self of
        (None, self) \<Rightarrow> Some (Inr left, self)
      | (Some _, self) \<Rightarrow>
          (case self_logical_and self of
             None \<Rightarrow> None
           | Some (Inl se, self) \<Rightarrow>
               Some (Inl (SyntaxError (''Expected expression after '' @ quoted ''||'')
                            (Some se)),
                     restore start_pos start_token self)
           | Some (Inr right, self) \<Rightarrow>
               logical_or_loop self_logical_and start_pos start_token
                 (BinaryExpr ''||'' left right) self))"

declare logical_or_loop.simps [code]

definition logical_or :: "'f symbol \<Rightarrow> 'f symbol" where
  "logical_or self_logical_and self =
     (let start_pos = pos self; start_token = current_token self in
      case self_logical_and self of
        None \<Rightarrow> None
      | Some (Inl se, self) \<Rightarrow>
          Some (Inl (SyntaxError (''Expected expression before '' @ quoted ''||'') (Some se)),
                restore start_pos start_token self)
      | Some (Inr left, self) \<Rightarrow> logical_or_loop self_logical_and start_pos start_token left self)"

text \<open>\<open>expression\<close> (lines 295--301).\<close>

definition expression :: "'f symbol \<Rightarrow> 'f symbol" where
  "expression self_logical_or self =
     (case self_logical_or self of
        None \<Rightarrow> None
      | Some (Inl se, self) \<Rightarrow>
          Some (Inl (SyntaxError ''Failed to parse expression'' (Some se)), self)
      | Some (Inr r, self) \<Rightarrow> Some (Inr r, self))"

text \<open>The precedence chain from \<open>expression\<close> down to a given \<open>primary\<close>.\<close>

definition expression_over :: "'f symbol \<Rightarrow> 'f symbol" where
  "expression_over self_primary =
     expression (logical_or (logical_and (equality (relational (additive
       (multiplicative self_primary))))))"

text \<open>
  \<open>primary\<close> (lines 477--516) calls \<open>expression\<close> and itself: the recursion is on the
  fuel \<open>n\<close>, the depth of nesting still allowed, and a call without fuel does not come
  back. \<open>pyfloat\<close> is Python's \<open>float\<close> on a token's value, \<open>None\<close> where it raises.
\<close>

fun primary :: "(string option \<Rightarrow> 'f option) \<Rightarrow> nat \<Rightarrow> 'f symbol" where
  "primary pyfloat 0 self = None"
| "primary pyfloat (Suc n) self =
     (case consume_token NUMBER None self of
        (Some num, self) \<Rightarrow>
          (case pyfloat (value num) of
             None \<Rightarrow> None
           | Some x \<Rightarrow> Some (Inr (Number x), self))
      | (None, self) \<Rightarrow>
     (case consume_token IDENTIFIER None self of
        (Some ident, self) \<Rightarrow> Some (Inr (Identifier (value ident)), self)
      | (None, self) \<Rightarrow>
     (let start_pos = pos self; start_token = current_token self in
      case consume_token LPAREN (Some ''('') self of
        (Some _, self) \<Rightarrow>
          (case expression_over (primary pyfloat n) self of
             None \<Rightarrow> None
           | Some (Inl se, self) \<Rightarrow>
               Some (Inl (SyntaxError (''Expected expression after '' @ quoted ''('')
                            (Some se)),
                     restore start_pos start_token self)
           | Some (Inr expr_result, self) \<Rightarrow>
               (case consume_token_or_fail RPAREN (Some '')'')
                       (Some ''Expected ')' after expression'') self of
                  (Inl e, self) \<Rightarrow> Some (Inl e, self)
                | (Inr _, self) \<Rightarrow> Some (Inr expr_result, self)))
      | (None, self) \<Rightarrow>
     (case (case consume_token PLUS (Some ''+'') self of
              (Some tok, self) \<Rightarrow> (Some tok, self)
            | (None, self) \<Rightarrow> consume_token MINUS (Some ''-'') self) of
        (Some op_token, self) \<Rightarrow>
          (let op = value op_token in
           case primary pyfloat n self of
             None \<Rightarrow> None
           | Some (Inl se, self) \<Rightarrow>
               Some (Inl (SyntaxError (''Expected expression after '' @ quoted (fmt_str op))
                            (Some se)),
                     restore start_pos start_token self)
           | Some (Inr operand, self) \<Rightarrow> Some (Inr (UnaryExpr op operand), self))
      | (None, self) \<Rightarrow> Some (Inl (SyntaxError ''Expected primary expression'' None), self)))))"

subsection \<open>Statements\<close>

text \<open>\<open>var_decl\<close> (lines 173--192).\<close>

definition var_decl :: "'f symbol \<Rightarrow> 'f symbol" where
  "var_decl self_expression self =
     (let start_pos = pos self; start_token = current_token self in
      case consume_token_or_fail VAR (Some ''var'') None self of
        (Inl e, self) \<Rightarrow> Some (Inl e, self)
      | (Inr _, self) \<Rightarrow>
     (case consume_token_or_fail IDENTIFIER None
             (Some ''Expected variable name in declaration'') self of
        (Inl e, self) \<Rightarrow> Some (Inl e, self)
      | (Inr id_token, self) \<Rightarrow>
     (case (case consume_token ASSIGN (Some ''='') self of
              (None, self) \<Rightarrow> Some (Inr Empty, self)
            | (Some _, self) \<Rightarrow>
                (case self_expression self of
                   None \<Rightarrow> None
                 | Some (Inl se, self) \<Rightarrow>
                     Some (Inl (SyntaxError ''Expected expression after '=' in declaration''
                                  (Some se)),
                           restore start_pos start_token self)
                 | Some (Inr expr_result, self) \<Rightarrow> Some (Inr expr_result, self))) of
        None \<Rightarrow> None
      | Some (Inl e, self) \<Rightarrow> Some (Inl e, self)
      | Some (Inr expr_result, self) \<Rightarrow>
     (case consume_token_or_fail SEMICOLON (Some '';'')
             (Some ''Expected ';' after declaration'') self of
        (Inl e, self) \<Rightarrow> Some (Inl e, self)
      | (Inr _, self) \<Rightarrow> Some (Inr (VarDecl (value id_token) expr_result), self)))))"

text \<open>\<open>assignment\<close> (lines 194--211).\<close>

definition assignment :: "'f symbol \<Rightarrow> 'f symbol" where
  "assignment self_expression self =
     (let start_pos = pos self; start_token = current_token self in
      case consume_token_or_fail IDENTIFIER None
             (Some ''Expected variable name in assignment'') self of
        (Inl e, self) \<Rightarrow> Some (Inl e, self)
      | (Inr id_token, self) \<Rightarrow>
     (case consume_token_or_fail ASSIGN (Some ''='') (Some ''Expected '=' in assignment'') self of
        (Inl e, self) \<Rightarrow> Some (Inl e, self)
      | (Inr _, self) \<Rightarrow>
     (case self_expression self of
        None \<Rightarrow> None
      | Some (Inl se, self) \<Rightarrow>
          Some (Inl (SyntaxError ''Expected expression in assignment'' (Some se)),
                restore start_pos start_token self)
      | Some (Inr expr_result, self) \<Rightarrow>
     (case consume_token_or_fail SEMICOLON (Some '';'')
             (Some ''Expected ';' after assignment'') self of
        (Inl e, self) \<Rightarrow> Some (Inl e, self)
      | (Inr _, self) \<Rightarrow> Some (Inr (Assignment (value id_token) expr_result), self)))))"

text \<open>\<open>if_stmt\<close> (lines 213--247).\<close>

definition if_stmt :: "'f symbol \<Rightarrow> 'f symbol \<Rightarrow> 'f symbol" where
  "if_stmt self_expression self_statement self =
     (let start_pos = pos self; start_token = current_token self in
      case consume_token_or_fail IF (Some ''if'') None self of
        (Inl e, self) \<Rightarrow> Some (Inl e, self)
      | (Inr _, self) \<Rightarrow>
     (case consume_token_or_fail LPAREN (Some ''('')
             (Some (''Expected '(' after '' @ quoted ''if'')) self of
        (Inl e, self) \<Rightarrow> Some (Inl e, self)
      | (Inr _, self) \<Rightarrow>
     (case self_expression self of
        None \<Rightarrow> None
      | Some (Inl se, self) \<Rightarrow>
          Some (Inl (SyntaxError ''Expected condition in 'if' statement'' (Some se)),
                restore start_pos start_token self)
      | Some (Inr condition_result, self) \<Rightarrow>
     (case consume_token_or_fail RPAREN (Some '')'') (Some ''Expected ')' after condition'') self of
        (Inl e, self) \<Rightarrow> Some (Inl e, self)
      | (Inr _, self) \<Rightarrow>
     (case self_statement self of
        None \<Rightarrow> None
      | Some (Inl se, self) \<Rightarrow>
          Some (Inl (SyntaxError (''Expected statement after '' @ quoted ''if'') (Some se)),
                restore start_pos start_token self)
      | Some (Inr if_body_result, self) \<Rightarrow>
     (case consume_token ELSE (Some ''else'') self of
        (None, self) \<Rightarrow>
          Some (Inr (IfStmt condition_result if_body_result Empty), self)
      | (Some _, self) \<Rightarrow>
          (case self_statement self of
             None \<Rightarrow> None
           | Some (Inl se, self) \<Rightarrow>
               Some (Inl (SyntaxError (''Expected statement after '' @ quoted ''else'')
                            (Some se)),
                     restore start_pos start_token self)
           | Some (Inr else_body_result, self) \<Rightarrow>
               Some (Inr (IfStmt condition_result if_body_result else_body_result),
                     self))))))))"

text \<open>\<open>while_loop\<close> (lines 249--274).\<close>

definition while_loop :: "'f symbol \<Rightarrow> 'f symbol \<Rightarrow> 'f symbol" where
  "while_loop self_expression self_statement self =
     (let start_pos = pos self; start_token = current_token self in
      case consume_token_or_fail WHILE (Some ''while'') None self of
        (Inl e, self) \<Rightarrow> Some (Inl e, self)
      | (Inr _, self) \<Rightarrow>
     (case consume_token_or_fail LPAREN (Some ''('')
             (Some (''Expected '(' after '' @ quoted ''while'')) self of
        (Inl e, self) \<Rightarrow> Some (Inl e, self)
      | (Inr _, self) \<Rightarrow>
     (case self_expression self of
        None \<Rightarrow> None
      | Some (Inl se, self) \<Rightarrow>
          Some (Inl (SyntaxError ''Expected condition in 'while' loop'' (Some se)),
                restore start_pos start_token self)
      | Some (Inr condition_result, self) \<Rightarrow>
     (case consume_token_or_fail RPAREN (Some '')'') (Some ''Expected ')' after condition'') self of
        (Inl e, self) \<Rightarrow> Some (Inl e, self)
      | (Inr _, self) \<Rightarrow>
     (case self_statement self of
        None \<Rightarrow> None
      | Some (Inl se, self) \<Rightarrow>
          Some (Inl (SyntaxError ''Expected loop body'' (Some se)),
                restore start_pos start_token self)
      | Some (Inr body_result, self) \<Rightarrow>
          Some (Inr (WhileLoop condition_result body_result), self))))))"

text \<open>\<open>print_stmt\<close> (lines 276--293).\<close>

definition print_stmt :: "'f symbol \<Rightarrow> 'f symbol" where
  "print_stmt self_expression self =
     (let start_pos = pos self; start_token = current_token self in
      case consume_token_or_fail PRINT (Some ''print'') None self of
        (Inl e, self) \<Rightarrow> Some (Inl e, self)
      | (Inr _, self) \<Rightarrow>
     (case self_expression self of
        None \<Rightarrow> None
      | Some (Inl se, self) \<Rightarrow>
          Some (Inl (SyntaxError (''Expected expression after '' @ quoted ''print'') (Some se)),
                restore start_pos start_token self)
      | Some (Inr expr_result, self) \<Rightarrow>
     (case consume_token_or_fail SEMICOLON (Some '';'') (Some ''Expected ';' after print'') self of
        (Inl e, self) \<Rightarrow> Some (Inl e, self)
      | (Inr _, self) \<Rightarrow> Some (Inr (PrintStmt expr_result), self))))"

text \<open>\<open>block\<close> (lines 165--171).\<close>

definition block :: "'f symbol \<Rightarrow> 'f symbol" where
  "block self_statement self =
     (case consume_token_or_fail LBRACE (Some ''{'') (Some ''Expected '{' to start block'') self of
        (Inl e, self) \<Rightarrow> Some (Inl e, self)
      | (Inr _, self) \<Rightarrow>
     (case parse_zero_or_more self_statement self of
        None \<Rightarrow> None
      | Some (Inl e, self) \<Rightarrow> Some (Inl e, self)
      | Some (Inr stmt_results, self) \<Rightarrow>
     (case consume_token_or_fail RBRACE (Some ''}'') (Some ''Expected '}' to end block'') self of
        (Inl e, self) \<Rightarrow> Some (Inl e, self)
      | (Inr _, self) \<Rightarrow> Some (Inr (Block stmt_results), self))))"

text \<open>
  \<open>statement\<close> (lines 149--163) calls the six statement rules, three of which call
  \<open>statement\<close> again: the recursion is on the fuel, as in \<open>primary\<close>.
\<close>

fun statement :: "(string option \<Rightarrow> 'f option) \<Rightarrow> nat \<Rightarrow> 'f symbol" where
  "statement pyfloat 0 self = None"
| "statement pyfloat (Suc n) self =
     (case parse_ordered_choice
             [var_decl (expression_over (primary pyfloat n)),
              assignment (expression_over (primary pyfloat n)),
              if_stmt (expression_over (primary pyfloat n)) (statement pyfloat n),
              while_loop (expression_over (primary pyfloat n)) (statement pyfloat n),
              print_stmt (expression_over (primary pyfloat n)),
              block (statement pyfloat n)] self of
        None \<Rightarrow> None
      | Some (Inl e, self) \<Rightarrow> Some (Inl e, self)
      | Some (Inr choice_results, self) \<Rightarrow>
          (case choice_results of
             [] \<Rightarrow> Some (Inl (SyntaxError ''Expected statement'' None), self)
           | r # _ \<Rightarrow> Some (Inr r, self)))"

text \<open>\<open>program\<close> (lines 141--147), the entry point, with the fuel it is given.\<close>

definition program :: "(string option \<Rightarrow> 'f option) \<Rightarrow> nat \<Rightarrow> 'f symbol" where
  "program pyfloat n self =
     (case parse_one_or_more (statement pyfloat n) self of
        None \<Rightarrow> None
      | Some (Inl e, self) \<Rightarrow> Some (Inl e, self)
      | Some (Inr stmt_results, self) \<Rightarrow>
          if stmt_results = [] then Some (Inl (SyntaxError ''Empty program'' None), self)
          else Some (Inr (Program stmt_results), self))"


section \<open>Operator chains\<close>

text \<open>
  The grammar line of each binary rule is \<open>operand (op operand)*\<close>, for the operators
  of one precedence level. \<open>op_at\<close> reads an operator of a level off a token, the level
  being given by its (type, text) pairs; \<open>chain_steps\<close> says that from a state the input
  continues with the listed operators, each followed by an operand that the operand rule
  parses to the listed tree, and ends in state \<open>fin\<close> on a token that is no operator of
  the level; \<open>fold_left\<close> is the tree that nests such a chain to the left.
\<close>

definition op_at :: "(TokenType \<times> string) list \<Rightarrow> Token \<Rightarrow> string option" where
  "op_at ops tok =
     map_option snd (find (\<lambda>(ty, v). type tok = ty \<and> value tok = Some v) ops)"

fun chain_steps ::
  "(TokenType \<times> string) list \<Rightarrow> 'f symbol \<Rightarrow> ToyPEGParser \<Rightarrow> (string \<times> 'f ast) list
     \<Rightarrow> ToyPEGParser \<Rightarrow> bool" where
  "chain_steps ops operand self [] fin = (op_at ops (current_token self) = None \<and> fin = self)"
| "chain_steps ops operand self ((op, right) # steps) fin =
     (op_at ops (current_token self) = Some op \<and>
      (case operand (snd (advance_to_next_token self)) of
         Some (Inr r, self) \<Rightarrow> r = right \<and> chain_steps ops operand self steps fin
       | _ \<Rightarrow> False))"

definition fold_left :: "'f ast \<Rightarrow> (string \<times> 'f ast) list \<Rightarrow> 'f ast" where
  "fold_left = foldl (\<lambda>left (op, right). BinaryExpr op left right)"

text \<open>
  The token stream of \<open>a - x1 - ... - xn\<close> followed by end-of-stream, and the tree that
  nests to the left: each further operand becomes the right child of a new node over the
  tree built so far.
\<close>

definition chain_rest :: "string list \<Rightarrow> Token list" where
  "chain_rest xs =
     concat (map (\<lambda>x. [mk_token MINUS ''-'', mk_token IDENTIFIER x]) xs) @ [Token_EOF]"

definition minus_chain :: "string \<Rightarrow> string list \<Rightarrow> Token list" where
  "minus_chain a xs = mk_token IDENTIFIER a # chain_rest xs"

definition minus_tree :: "string \<Rightarrow> string list \<Rightarrow> 'f ast" where
  "minus_tree a xs =
     foldl (\<lambda>left x. BinaryExpr ''-'' left (Identifier (Some x))) (Identifier (Some a)) xs"

section \<open>Unfolding the definitions on concrete token streams\<close>

lemmas cursor_defs = init_parser_def advance_to_next_token_def consume_token_def
  consume_token_or_fail_def restore_def Token_EOF_def mk_token_def str_or_def fmt_int_def
  fmt_str_def quoted_def Let_def

lemmas combinator_defs = parse_sequence_def parse_ordered_choice_def parse_zero_or_more_def
  parse_one_or_more_def zero_or_more_loop.simps

lemmas rule_defs = var_decl_def assignment_def if_stmt_def while_loop_def print_stmt_def
  block_def expression_def expression_over_def logical_or_def logical_and_def equality_def
  relational_def additive_def multiplicative_def program_def
  logical_or_loop.simps logical_and_loop.simps equality_loop.simps relational_loop.simps
  additive_loop.simps multiplicative_loop.simps

section \<open>The cursor invariant\<close>

text \<open>
  Claim C9. The cursor invariant (the current token is \<open>tokens[pos]\<close> when
  \<open>pos < len(tokens)\<close>, the end-of-stream sentinel otherwise) holds after construction,
  after every \<open>advance_to_next_token\<close>, and is kept by \<open>consume_token\<close>,
  \<open>consume_token_or_fail\<close> and by a rollback to the position and token saved from a
  parser over the same tokens that satisfied it; a parser built from the empty list has
  the sentinel as its current token.
\<close>

theorem cursor_invariant:
  "cursor_inv (init_parser toks) \<and>
   current_token (init_parser []) = Token_EOF \<and>
   cursor_inv (snd (advance_to_next_token self)) \<and>
   (cursor_inv self \<longrightarrow> cursor_inv (snd (consume_token ty v self))) \<and>
   (cursor_inv self \<longrightarrow> cursor_inv (snd (consume_token_or_fail ty v msg self))) \<and>
   (cursor_inv saved \<and> tokens self = tokens saved \<longrightarrow>
      cursor_inv (restore (pos saved) (current_token saved) self))"
  by (cases toks)
     (auto simp: cursor_inv_def init_parser_def advance_to_next_token_def consume_token_def
        consume_token_or_fail_def restore_def Let_def)

theorem cursor_invariant_witness:
  "cursor_inv (init_parser [mk_token VAR ''var'', Token_EOF]) \<and>
   cursor_inv (snd (consume_token VAR None (init_parser [mk_token VAR ''var'', Token_EOF]))) \<and>
   cursor_inv (snd (consume_token_or_fail IF None None
                      (init_parser [mk_token VAR ''var'', Token_EOF]))) \<and>
   tokens (snd (advance_to_next_token (init_parser [mk_token VAR ''var'', Token_EOF]))) =
     tokens (init_parser [mk_token VAR ''var'', Token_EOF]) \<and>
   cursor_inv (restore (pos (init_parser [mk_token VAR ''var'', Token_EOF]))
                 (current_token (init_parser [mk_token VAR ''var'', Token_EOF]))
                 (snd (advance_to_next_token (init_parser [mk_token VAR ''var'', Token_EOF]))))"
proof -
  let ?s = "init_parser [mk_token VAR ''var'', Token_EOF]"
  have inv: "cursor_inv ?s"
    by (simp add: cursor_inv_def cursor_defs)
  have same: "tokens (snd (advance_to_next_token ?s)) = tokens ?s"
    by (simp add: cursor_defs)
  from inv same
    cursor_invariant [where self = ?s and ty = VAR and v = None]
    cursor_invariant [where self = ?s and ty = IF and v = None and msg = None]
    cursor_invariant [where saved = ?s and self = "snd (advance_to_next_token ?s)"]
  show ?thesis by blast
qed

section \<open>Concrete token streams\<close>

text \<open>
  Claim C2. On the token stream that holds only the end-of-stream token, \<open>program\<close>
  raises a SyntaxError. Evaluated here with any fuel that lets \<open>statement\<close> run: the
  six alternatives of \<open>statement\<close> fail, \<open>statement\<close> raises "Expected statement",
  and \<open>parse_one_or_more\<close> re-raises it under its own message before \<open>program\<close>
  reaches its \<open>if not stmt_results\<close> test; the message that escapes is not
  "Empty program".
\<close>

theorem program_end_of_stream_only:
  "program pyfloat (Suc n) (init_parser [Token_EOF]) =
     Some (Inl (SyntaxError
                  (''Syntax error. 1st symbol parsing failed in '' @ quoted ''one_or_more'' @ ''.'')
                  (Some (SyntaxError ''Expected statement'' None))),
           init_parser [Token_EOF]) \<and>
   ''Syntax error. 1st symbol parsing failed in '' @ quoted ''one_or_more'' @ ''.''
     \<noteq> ''Empty program''"
  by (simp add: cursor_defs combinator_defs rule_defs)

text \<open>
  Claim C1. A statement rule that fails partway should leave the position and current
  token it was entered with. Evaluated here on streams that break off after the first
  tokens of each construct (\<open>var x\<close>, \<open>print x\<close>, \<open>x\<close>, \<open>if\<close>, \<open>while\<close>,
  \<open>{\<close>, each followed by end-of-stream): the mismatch of a mandatory token raises from
  \<open>consume_token_or_fail\<close> with the cursor past the tokens already consumed, while the
  rule was entered at position 0 on its first token.
\<close>

theorem mandatory_token_mismatch_keeps_cursor_advanced:
  "(\<exists>e s. var_decl ex (init_parser [mk_token VAR ''var'', mk_token IDENTIFIER ''x'', Token_EOF])
            = Some (Inl e, s) \<and> pos s = 2 \<and> current_token s = Token_EOF) \<and>
   (\<exists>e s. print_stmt (expression_over (primary pyfloat (Suc n)))
              (init_parser [mk_token PRINT ''print'', mk_token IDENTIFIER ''x'', Token_EOF])
            = Some (Inl e, s) \<and> pos s = 2 \<and> current_token s = Token_EOF) \<and>
   (\<exists>e s. assignment ex (init_parser [mk_token IDENTIFIER ''x'', Token_EOF])
            = Some (Inl e, s) \<and> pos s = 1 \<and> current_token s = Token_EOF) \<and>
   (\<exists>e s. if_stmt ex st (init_parser [mk_token IF ''if'', Token_EOF])
            = Some (Inl e, s) \<and> pos s = 1 \<and> current_token s = Token_EOF) \<and>
   (\<exists>e s. while_loop ex st (init_parser [mk_token WHILE ''while'', Token_EOF])
            = Some (Inl e, s) \<and> pos s = 1 \<and> current_token s = Token_EOF) \<and>
   (\<exists>e s. block (statement pyfloat (Suc n)) (init_parser [mk_token LBRACE ''{'', Token_EOF])
            = Some (Inl e, s) \<and> pos s = 1 \<and> current_token s = Token_EOF) \<and>
   pos (init_parser [mk_token VAR ''var'', mk_token IDENTIFIER ''x'', Token_EOF]) = 0 \<and>
   current_token (init_parser [mk_token VAR ''var'', mk_token IDENTIFIER ''x'', Token_EOF])
     = mk_token VAR ''var''"
  by (simp add: cursor_defs combinator_defs rule_defs)

text \<open>
  Claim C8. An absent optional child is the empty marker: \<open>var x;\<close> gives a
  \<open>var_decl\<close> node whose \<open>init\<close> is \<open>{}\<close>, and \<open>if (x) print x;\<close> gives an
  \<open>if_stmt\<close> node whose \<open>else-body\<close> is \<open>{}\<close>.
\<close>

theorem absent_optional_is_empty_marker:
  "var_decl ex (init_parser [mk_token VAR ''var'', mk_token IDENTIFIER ''x'',
                              mk_token SEMICOLON '';'', Token_EOF]) =
     Some (Inr (VarDecl (Some ''x'') Empty),
           \<lparr>tokens = [mk_token VAR ''var'', mk_token IDENTIFIER ''x'',
                      mk_token SEMICOLON '';'', Token_EOF],
            pos = 3, current_token = Token_EOF\<rparr>) \<and>
   init (VarDecl (Some ''x'') Empty :: 'f ast) = Empty \<and>
   if_stmt (expression_over (primary pyfloat (Suc n))) (statement pyfloat (Suc (Suc n)))
     (init_parser [mk_token IF ''if'', mk_token LPAREN ''('', mk_token IDENTIFIER ''x'',
                   mk_token RPAREN '')'', mk_token PRINT ''print'', mk_token IDENTIFIER ''x'',
                   mk_token SEMICOLON '';'', Token_EOF]) =
     Some (Inr (IfStmt (Identifier (Some ''x'')) (PrintStmt (Identifier (Some ''x''))) Empty),
           \<lparr>tokens = [mk_token IF ''if'', mk_token LPAREN ''('', mk_token IDENTIFIER ''x'',
                   mk_token RPAREN '')'', mk_token PRINT ''print'', mk_token IDENTIFIER ''x'',
                   mk_token SEMICOLON '';'', Token_EOF],
            pos = 7, current_token = Token_EOF\<rparr>) \<and>
   else_body (IfStmt (Identifier (Some ''x'')) (PrintStmt (Identifier (Some ''x''))) Empty :: 'f ast)
     = Empty"
  by (simp add: cursor_defs combinator_defs rule_defs)

text \<open>
  Claim C10. \<open>program\<close> makes no end-of-input check: on \<open>print x ; )\<close> it returns
  the program of the one statement and leaves the cursor on the unconsumed \<open>)\<close>.
\<close>

theorem program_ignores_trailing_input:
  "program pyfloat (Suc (Suc n))
     (init_parser [mk_token PRINT ''print'', mk_token IDENTIFIER ''x'', mk_token SEMICOLON '';'',
                   mk_token RPAREN '')'', Token_EOF]) =
   Some (Inr (Program [PrintStmt (Identifier (Some ''x''))]),
         \<lparr>tokens = [mk_token PRINT ''print'', mk_token IDENTIFIER ''x'', mk_token SEMICOLON '';'',
                    mk_token RPAREN '')'', Token_EOF],
          pos = 3, current_token = mk_token RPAREN '')''\<rparr>) \<and>
   type (mk_token RPAREN '')'') \<noteq> EOF"
  by (simp add: cursor_defs combinator_defs rule_defs)

section \<open>The combinators\<close>

subsection \<open>\<open>parse_zero_or_more\<close>\<close>

text \<open>
  The loop raises nothing, and the list it is entered with is a prefix of the list it
  returns: running it from \<open>b @ a\<close> is running it from \<open>a\<close> and putting \<open>b\<close> in
  front, also when it does not come back.
\<close>

lemma zero_or_more_loop_never_raises:
  assumes "zero_or_more_loop symbol a self = Some y"
  shows "\<exists>xs. fst y = Inr xs"
  apply (rule zero_or_more_loop.raw_induct
      [where P = "\<lambda>symbol a self y. \<exists>xs. fst y = Inr xs", OF _ assms])
  subgoal premises prems for f symbol a self y
    using prems(2) prems(1)
    by (cases y) (auto simp: Let_def split: option.splits sum.splits if_splits)
  done

lemma zero_or_more_loop_append:
  assumes "zero_or_more_loop symbol a self = Some y"
  shows "zero_or_more_loop symbol (b @ a) self = Some (apfst (map_sum id ((@) b)) y)"
proof -
  have "\<forall>b. zero_or_more_loop symbol (b @ a) self = Some (apfst (map_sum id ((@) b)) y)"
    apply (rule zero_or_more_loop.raw_induct
      [where P = "\<lambda>symbol a self y.
         \<forall>b. zero_or_more_loop symbol (b @ a) self = Some (apfst (map_sum id ((@) b)) y)",
       OF _ assms])
    subgoal premises prems for f symbol a self y
      apply (rule allI)
      apply (subst zero_or_more_loop.simps)
      using prems(2) prems(1)
      by (cases y) (auto simp: Let_def split: option.splits sum.splits if_splits)
    done
  then show ?thesis by blast
qed

lemma zero_or_more_loop_split:
  assumes "zero_or_more_loop symbol c self = Some y"
  shows "c = b @ a \<Longrightarrow>
   \<exists>z. zero_or_more_loop symbol a self = Some z \<and> y = apfst (map_sum id ((@) b)) z"
proof -
  have "\<forall>a b. c = b @ a \<longrightarrow>
     (\<exists>z. zero_or_more_loop symbol a self = Some z \<and> y = apfst (map_sum id ((@) b)) z)"
    apply (rule zero_or_more_loop.raw_induct
      [where P = "\<lambda>symbol c self y. \<forall>a b. c = b @ a \<longrightarrow>
         (\<exists>z. zero_or_more_loop symbol a self = Some z \<and> y = apfst (map_sum id ((@) b)) z)",
       OF _ assms])
    subgoal premises prems for f symbol c self y
      apply (intro allI impI)
      apply (subst zero_or_more_loop.simps)
      using prems(2) prems(1)
      by (cases y) (auto simp: Let_def split: option.splits sum.splits if_splits)
    done
  then show "c = b @ a \<Longrightarrow> ?thesis" by blast
qed

lemma zero_or_more_loop_acc:
  "zero_or_more_loop symbol (b @ a) self =
     map_option (apfst (map_sum id ((@) b))) (zero_or_more_loop symbol a self)"
proof (cases "zero_or_more_loop symbol a self")
  case None
  show ?thesis
  proof (cases "zero_or_more_loop symbol (b @ a) self")
    case None
    with \<open>zero_or_more_loop symbol a self = None\<close> show ?thesis by simp
  next
    case (Some y)
    from zero_or_more_loop_split [OF Some refl] None show ?thesis by simp
  qed
next
  case (Some z)
  from zero_or_more_loop_append [OF Some] Some show ?thesis by simp
qed

text \<open>
  Claim C6. \<open>parse_zero_or_more\<close> never raises. When the symbol fails, whatever it
  consumed before failing, the call returns the results so far (none, on the first call)
  with the position and the current token that the parser had before that call of the
  symbol; when the symbol succeeds without moving the position, the repetition stops with
  that result; when it succeeds and moves, its result is followed by the results of
  repeating from the state it left.
\<close>

theorem zero_or_more_repeats_until_failure_or_stall:
  "(\<forall>e s'. parse_zero_or_more symbol self \<noteq> Some (Inl e, s')) \<and>
   (\<forall>e s'. symbol self = Some (Inl e, s') \<longrightarrow>
      (\<exists>s''. parse_zero_or_more symbol self = Some (Inr [], s'') \<and>
         pos s'' = pos self \<and> current_token s'' = current_token self \<and>
         tokens s'' = tokens s')) \<and>
   (\<forall>r s'. symbol self = Some (Inr r, s') \<and> pos s' = pos self \<longrightarrow>
      parse_zero_or_more symbol self = Some (Inr [r], s')) \<and>
   (\<forall>r s'. symbol self = Some (Inr r, s') \<and> pos s' \<noteq> pos self \<longrightarrow>
      parse_zero_or_more symbol self =
        (case parse_zero_or_more symbol s' of
           None \<Rightarrow> None
         | Some (Inl e, s'') \<Rightarrow> Some (Inl e, s'')
         | Some (Inr rest, s'') \<Rightarrow> Some (Inr (r # rest), s'')))"
proof (intro conjI allI impI)
  fix e s'
  show "parse_zero_or_more symbol self \<noteq> Some (Inl e, s')"
    using zero_or_more_loop_never_raises [of symbol "[]" self "(Inl e, s')"]
    by (auto simp: parse_zero_or_more_def)
next
  fix e s' assume "symbol self = Some (Inl e, s')"
  then have "parse_zero_or_more symbol self =
      Some (Inr [], s'\<lparr>pos := pos self, current_token := current_token self\<rparr>)"
    unfolding parse_zero_or_more_def
    by (subst zero_or_more_loop.simps) (simp add: Let_def restore_def)
  then show "\<exists>s''. parse_zero_or_more symbol self = Some (Inr [], s'') \<and>
         pos s'' = pos self \<and> current_token s'' = current_token self \<and>
         tokens s'' = tokens s'"
    by simp
next
  fix r s' assume "symbol self = Some (Inr r, s') \<and> pos s' = pos self"
  then show "parse_zero_or_more symbol self = Some (Inr [r], s')"
    unfolding parse_zero_or_more_def
    by (subst zero_or_more_loop.simps) (simp add: Let_def)
next
  fix r s' assume a: "symbol self = Some (Inr r, s') \<and> pos s' \<noteq> pos self"
  then have "zero_or_more_loop symbol [] self = zero_or_more_loop symbol ([r] @ []) s'"
    by (subst zero_or_more_loop.simps) (auto simp: Let_def)
  also have "\<dots> = map_option (apfst (map_sum id ((@) [r]))) (zero_or_more_loop symbol [] s')"
    by (rule zero_or_more_loop_acc)
  finally show "parse_zero_or_more symbol self =
        (case parse_zero_or_more symbol s' of
           None \<Rightarrow> None
         | Some (Inl e, s'') \<Rightarrow> Some (Inl e, s'')
         | Some (Inr rest, s'') \<Rightarrow> Some (Inr (r # rest), s''))"
    by (auto simp: parse_zero_or_more_def split: option.splits sum.splits)
qed

theorem zero_or_more_repeats_until_failure_or_stall_witness:
  "var_decl (expression_over (primary Some (Suc 0)))
     (init_parser [mk_token VAR ''var'', mk_token IDENTIFIER ''x'', Token_EOF]) =
     Some (Inl (SyntaxError
                  ''Expected ';' after declaration. Expected ;, found EOF at line None:None''
                  None),
           \<lparr>tokens = [mk_token VAR ''var'', mk_token IDENTIFIER ''x'', Token_EOF], pos = 2,
            current_token = Token_EOF\<rparr>) \<and>
   parse_zero_or_more (var_decl (expression_over (primary Some (Suc 0))))
     (init_parser [mk_token VAR ''var'', mk_token IDENTIFIER ''x'', Token_EOF]) =
     Some (Inr [],
           \<lparr>tokens = [mk_token VAR ''var'', mk_token IDENTIFIER ''x'', Token_EOF], pos = 0,
            current_token = mk_token VAR ''var''\<rparr>) \<and>
   parse_zero_or_more (\<lambda>s. Some (Inr (Empty :: unit ast), s)) (init_parser [Token_EOF]) =
     Some (Inr [Empty], init_parser [Token_EOF]) \<and>
   var_decl (expression_over (primary Some (Suc 0)))
     \<lparr>tokens = [mk_token VAR ''var'', mk_token IDENTIFIER ''x'', mk_token SEMICOLON '';'',
                mk_token VAR ''var'', mk_token IDENTIFIER ''y'', Token_EOF], pos = 3,
      current_token = mk_token VAR ''var''\<rparr> =
     Some (Inl (SyntaxError
                  ''Expected ';' after declaration. Expected ;, found EOF at line None:None''
                  None),
           \<lparr>tokens = [mk_token VAR ''var'', mk_token IDENTIFIER ''x'', mk_token SEMICOLON '';'',
                mk_token VAR ''var'', mk_token IDENTIFIER ''y'', Token_EOF], pos = 5,
            current_token = Token_EOF\<rparr>) \<and>
   parse_zero_or_more (var_decl (expression_over (primary Some (Suc 0))))
     (init_parser [mk_token VAR ''var'', mk_token IDENTIFIER ''x'', mk_token SEMICOLON '';'',
                   mk_token VAR ''var'', mk_token IDENTIFIER ''y'', Token_EOF]) =
     Some (Inr [VarDecl (Some ''x'') Empty],
           \<lparr>tokens = [mk_token VAR ''var'', mk_token IDENTIFIER ''x'', mk_token SEMICOLON '';'',
                mk_token VAR ''var'', mk_token IDENTIFIER ''y'', Token_EOF], pos = 3,
            current_token = mk_token VAR ''var''\<rparr>)"
  using
    zero_or_more_repeats_until_failure_or_stall
      [of "var_decl (expression_over (primary Some (Suc 0)))"
          "init_parser [mk_token VAR ''var'', mk_token IDENTIFIER ''x'', Token_EOF]"]
    zero_or_more_repeats_until_failure_or_stall
      [of "\<lambda>s. Some (Inr (Empty :: unit ast), s)" "init_parser [Token_EOF]"]
    zero_or_more_repeats_until_failure_or_stall
      [of "var_decl (expression_over (primary Some (Suc 0)))"
          "init_parser [mk_token VAR ''var'', mk_token IDENTIFIER ''x'', mk_token SEMICOLON '';'',
                   mk_token VAR ''var'', mk_token IDENTIFIER ''y'', Token_EOF]"]
    zero_or_more_repeats_until_failure_or_stall
      [of "var_decl (expression_over (primary Some (Suc 0)))"
          "\<lparr>tokens = [mk_token VAR ''var'', mk_token IDENTIFIER ''x'', mk_token SEMICOLON '';'',
                mk_token VAR ''var'', mk_token IDENTIFIER ''y'', Token_EOF], pos = 3,
            current_token = mk_token VAR ''var''\<rparr>"]
  by (simp add: cursor_defs var_decl_def parse_zero_or_more_def parse_one_or_more_def
        zero_or_more_loop.simps)

subsection \<open>\<open>parse_one_or_more\<close>\<close>

text \<open>
  Claim C5. \<open>parse_one_or_more\<close> calls the symbol: if it raises, whatever it consumed
  before raising, a SyntaxError chained to the symbol's is raised with the position and
  the current token that the parser had on entry; if it returns the empty marker, the
  result is the empty list; otherwise the result is the first result followed by the
  results of \<open>parse_zero_or_more\<close> of the same symbol.
\<close>

theorem one_or_more_first_then_zero_or_more:
  "(\<forall>se s'. symbol self = Some (Inl se, s') \<longrightarrow>
      (\<exists>s''. parse_one_or_more symbol self =
          Some (Inl (SyntaxError
                       (''Syntax error. 1st symbol parsing failed in '' @ quoted ''one_or_more''
                          @ ''.'') (Some se)), s'') \<and>
         pos s'' = pos self \<and> current_token s'' = current_token self \<and>
         tokens s'' = tokens s')) \<and>
   (\<forall>s'. symbol self = Some (Inr Empty, s') \<longrightarrow>
      parse_one_or_more symbol self = Some (Inr [], s')) \<and>
   (\<forall>r s'. symbol self = Some (Inr r, s') \<and> r \<noteq> Empty \<longrightarrow>
      parse_one_or_more symbol self =
        (case parse_zero_or_more symbol s' of
           None \<Rightarrow> None
         | Some (Inl e, s'') \<Rightarrow> Some (Inl e, s'')
         | Some (Inr rest_results, s'') \<Rightarrow> Some (Inr (r # rest_results), s'')))"
  by (auto simp: parse_one_or_more_def quoted_def Let_def restore_def
           split: option.splits sum.splits prod.splits)

theorem one_or_more_first_then_zero_or_more_witness:
  "var_decl (expression_over (primary Some (Suc 0)))
     (init_parser [mk_token VAR ''var'', mk_token IDENTIFIER ''x'', Token_EOF]) =
     Some (Inl (SyntaxError
                  ''Expected ';' after declaration. Expected ;, found EOF at line None:None''
                  None),
           \<lparr>tokens = [mk_token VAR ''var'', mk_token IDENTIFIER ''x'', Token_EOF], pos = 2,
            current_token = Token_EOF\<rparr>) \<and>
   parse_one_or_more (var_decl (expression_over (primary Some (Suc 0))))
     (init_parser [mk_token VAR ''var'', mk_token IDENTIFIER ''x'', Token_EOF]) =
     Some (Inl (SyntaxError
                  (''Syntax error. 1st symbol parsing failed in '' @ quoted ''one_or_more''
                     @ ''.'')
                  (Some (SyntaxError
                  ''Expected ';' after declaration. Expected ;, found EOF at line None:None''
                  None))),
           \<lparr>tokens = [mk_token VAR ''var'', mk_token IDENTIFIER ''x'', Token_EOF], pos = 0,
            current_token = mk_token VAR ''var''\<rparr>) \<and>
   parse_one_or_more (\<lambda>s. Some (Inr (Empty :: unit ast), s)) (init_parser [Token_EOF]) =
     Some (Inr [], init_parser [Token_EOF]) \<and>
   (VarDecl (Some ''x'') Empty :: string option ast) \<noteq> Empty \<and>
   parse_one_or_more (var_decl (expression_over (primary Some (Suc 0))))
     (init_parser [mk_token VAR ''var'', mk_token IDENTIFIER ''x'', mk_token SEMICOLON '';'',
                   mk_token VAR ''var'', mk_token IDENTIFIER ''y'', Token_EOF]) =
     Some (Inr [VarDecl (Some ''x'') Empty],
           \<lparr>tokens = [mk_token VAR ''var'', mk_token IDENTIFIER ''x'', mk_token SEMICOLON '';'',
                mk_token VAR ''var'', mk_token IDENTIFIER ''y'', Token_EOF], pos = 3,
            current_token = mk_token VAR ''var''\<rparr>)"
  using
    one_or_more_first_then_zero_or_more
      [of "var_decl (expression_over (primary Some (Suc 0)))"
          "init_parser [mk_token VAR ''var'', mk_token IDENTIFIER ''x'', Token_EOF]"]
    one_or_more_first_then_zero_or_more
      [of "\<lambda>s. Some (Inr (Empty :: unit ast), s)" "init_parser [Token_EOF]"]
    one_or_more_first_then_zero_or_more
      [of "var_decl (expression_over (primary Some (Suc 0)))"
          "init_parser [mk_token VAR ''var'', mk_token IDENTIFIER ''x'', mk_token SEMICOLON '';'',
                   mk_token VAR ''var'', mk_token IDENTIFIER ''y'', Token_EOF]"]
  by (simp add: cursor_defs var_decl_def parse_zero_or_more_def parse_one_or_more_def
        zero_or_more_loop.simps)

subsection \<open>\<open>parse_sequence\<close>\<close>

lemma sequence_loop_fail:
  "sequence_loop sp st acc syms self = Some (Inl e, s') \<Longrightarrow>
   pos s' = sp \<and> current_token s' = st \<and>
   (\<exists>cause. e = SyntaxError ''Syntax error. One symbol parsing failed within sequence.''
                  (Some cause))"
  by (induction syms arbitrary: acc self)
     (auto simp: restore_def split: option.splits sum.splits prod.splits)

lemma sequence_loop_ok:
  "sequence_loop sp st acc syms self = Some (Inr rs, s') \<Longrightarrow>
   length rs = length acc + length syms"
  by (induction syms arbitrary: acc self)
     (auto split: option.splits sum.splits prod.splits)

lemma sequence_loop_acc:
  "sequence_loop sp st acc syms self =
     (case sequence_loop sp' st' [] syms self of
        None \<Rightarrow> None
      | Some (Inl e, s'') \<Rightarrow> Some (Inl e, restore sp st s'')
      | Some (Inr rs, s'') \<Rightarrow> Some (Inr (acc @ rs), s''))"
proof (induction syms arbitrary: acc self sp st)
  case Nil
  show ?case by simp
next
  case (Cons s ss)
  show ?case
  proof (cases "s self")
    case None
    then show ?thesis by simp
  next
    case (Some p)
    obtain r s1 where p: "p = (r, s1)" by (cases p)
    show ?thesis
    proof (cases r)
      case (Inl e)
      with Some p show ?thesis by (simp add: restore_def)
    next
      case (Inr x)
      have 1: "sequence_loop sp st (acc @ [x]) ss s1 =
          (case sequence_loop sp' st' [] ss s1 of
             None \<Rightarrow> None
           | Some (Inl e, s'') \<Rightarrow> Some (Inl e, restore sp st s'')
           | Some (Inr rs, s'') \<Rightarrow> Some (Inr ((acc @ [x]) @ rs), s''))"
        by (rule Cons.IH)
      have 2: "sequence_loop sp' st' [x] ss s1 =
          (case sequence_loop sp' st' [] ss s1 of
             None \<Rightarrow> None
           | Some (Inl e, s'') \<Rightarrow> Some (Inl e, restore sp' st' s'')
           | Some (Inr rs, s'') \<Rightarrow> Some (Inr ([x] @ rs), s''))"
        by (rule Cons.IH)
      show ?thesis
        using Some p Inr
        by (simp add: 1 2 restore_def split: option.splits sum.splits prod.splits)
    qed
  qed
qed

text \<open>
  Claim C4. On a non-empty list of symbols \<open>parse_sequence\<close> is all or nothing: a
  failure leaves the position and current token of the entry and carries the wrapping
  message, a success returns one result per symbol. Symbol by symbol: a failing symbol
  fails the sequence with its error as the cause, a succeeding one puts its result in
  front of the results of the remaining symbols, and a failure among those restores the
  snapshot of the whole sequence.
\<close>

theorem sequence_all_or_nothing:
  "(symbols \<noteq> [] \<longrightarrow>
      (\<forall>e s'. parse_sequence symbols self = Some (Inl e, s') \<longrightarrow>
         pos s' = pos self \<and> current_token s' = current_token self \<and>
         (\<exists>cause. e = SyntaxError ''Syntax error. One symbol parsing failed within sequence.''
                        (Some cause))) \<and>
      (\<forall>rs s'. parse_sequence symbols self = Some (Inr rs, s') \<longrightarrow>
         length rs = length symbols)) \<and>
   (\<forall>e s'. symbol self = Some (Inl e, s') \<longrightarrow>
      parse_sequence (symbol # symbols) self =
        Some (Inl (SyntaxError ''Syntax error. One symbol parsing failed within sequence.''
                     (Some e)),
              restore (pos self) (current_token self) s')) \<and>
   (\<forall>r s'. symbol self = Some (Inr r, s') \<longrightarrow>
      parse_sequence [symbol] self = Some (Inr [r], s')) \<and>
   (\<forall>r s'. symbol self = Some (Inr r, s') \<and> symbols \<noteq> [] \<longrightarrow>
      parse_sequence (symbol # symbols) self =
        (case parse_sequence symbols s' of
           None \<Rightarrow> None
         | Some (Inl e, s'') \<Rightarrow> Some (Inl e, restore (pos self) (current_token self) s'')
         | Some (Inr rs, s'') \<Rightarrow> Some (Inr (r # rs), s'')))"
proof (intro conjI allI impI)
  fix e s'
  assume "symbols \<noteq> []" "parse_sequence symbols self = Some (Inl e, s')"
  then have "sequence_loop (pos self) (current_token self) [] symbols self = Some (Inl e, s')"
    by (simp add: parse_sequence_def)
  from sequence_loop_fail [OF this]
  show "pos s' = pos self" "current_token s' = current_token self"
    "\<exists>cause. e = SyntaxError ''Syntax error. One symbol parsing failed within sequence.''
                   (Some cause)"
    by simp_all
next
  fix rs s'
  assume "symbols \<noteq> []" "parse_sequence symbols self = Some (Inr rs, s')"
  then have "sequence_loop (pos self) (current_token self) [] symbols self = Some (Inr rs, s')"
    by (simp add: parse_sequence_def)
  from sequence_loop_ok [OF this] show "length rs = length symbols" by simp
next
  fix e s' assume "symbol self = Some (Inl e, s')"
  then show "parse_sequence (symbol # symbols) self =
        Some (Inl (SyntaxError ''Syntax error. One symbol parsing failed within sequence.''
                     (Some e)),
              restore (pos self) (current_token self) s')"
    by (simp add: parse_sequence_def)
next
  fix r s' assume "symbol self = Some (Inr r, s')"
  then show "parse_sequence [symbol] self = Some (Inr [r], s')"
    by (simp add: parse_sequence_def)
next
  fix r s' assume a: "symbol self = Some (Inr r, s') \<and> symbols \<noteq> []"
  have "sequence_loop (pos self) (current_token self) [r] symbols s' =
        (case sequence_loop (pos s') (current_token s') [] symbols s' of
           None \<Rightarrow> None
         | Some (Inl e, s'') \<Rightarrow> Some (Inl e, restore (pos self) (current_token self) s'')
         | Some (Inr rs, s'') \<Rightarrow> Some (Inr ([r] @ rs), s''))"
    by (rule sequence_loop_acc)
  with a show "parse_sequence (symbol # symbols) self =
        (case parse_sequence symbols s' of
           None \<Rightarrow> None
         | Some (Inl e, s'') \<Rightarrow> Some (Inl e, restore (pos self) (current_token self) s'')
         | Some (Inr rs, s'') \<Rightarrow> Some (Inr (r # rs), s''))"
    by (auto simp: parse_sequence_def split: option.splits sum.splits)
qed

theorem sequence_all_or_nothing_witness:
  "[primary (\<lambda>_. None :: unit option) (Suc 0), primary (\<lambda>_. None) (Suc 0)] \<noteq> [] \<and>
   parse_sequence [primary (\<lambda>_. None :: unit option) (Suc 0), primary (\<lambda>_. None) (Suc 0)]
       (init_parser [mk_token IDENTIFIER ''x'', Token_EOF]) =
     Some (Inl (SyntaxError ''Syntax error. One symbol parsing failed within sequence.''
                  (Some (SyntaxError ''Expected primary expression'' None))),
           init_parser [mk_token IDENTIFIER ''x'', Token_EOF]) \<and>
   parse_sequence [primary (\<lambda>_. None :: unit option) (Suc 0)]
       (init_parser [mk_token IDENTIFIER ''x'', Token_EOF]) =
     Some (Inr [Identifier (Some ''x'')],
           \<lparr>tokens = [mk_token IDENTIFIER ''x'', Token_EOF], pos = 1,
            current_token = Token_EOF\<rparr>) \<and>
   length [Identifier (Some ''x'') :: unit ast] =
     length [primary (\<lambda>_. None :: unit option) (Suc 0)]"
  using
    sequence_all_or_nothing
      [where symbol = "primary (\<lambda>_. None :: unit option) (Suc 0)"
         and symbols = "[primary (\<lambda>_. None :: unit option) (Suc 0)]"
         and self = "init_parser [mk_token IDENTIFIER ''x'', Token_EOF]"]
    sequence_all_or_nothing
      [where symbol = "primary (\<lambda>_. None :: unit option) (Suc 0)"
         and symbols = "[]"
         and self = "\<lparr>tokens = [mk_token IDENTIFIER ''x'', Token_EOF], pos = 1,
            current_token = Token_EOF\<rparr>"]
    sequence_all_or_nothing
      [where symbol = "primary (\<lambda>_. None :: unit option) (Suc 0)"
         and symbols = "[]"
         and self = "init_parser [mk_token IDENTIFIER ''x'', Token_EOF]"]
  by (simp add: cursor_defs)

subsection \<open>\<open>parse_ordered_choice\<close>\<close>

lemma ordered_choice_loop_result:
  "ordered_choice_loop sp st syms self = Some (res, s') \<Longrightarrow>
   pos self = sp \<Longrightarrow> current_token self = st \<Longrightarrow>
   (\<exists>r. res = Inr [r]) \<or> (res = Inr [] \<and> pos s' = sp \<and> current_token s' = st)"
  by (induction syms arbitrary: self)
     (auto simp: restore_def split: option.splits sum.splits prod.splits)

text \<open>
  Claim C3, for a non-empty list of symbols. \<open>parse_ordered_choice\<close> never raises: it
  returns one result, or the empty list with the position and current token of the entry.
  The first symbol that succeeds gives the result whatever the later symbols are; after a
  failing symbol the cursor is restored and the choice goes on with the remaining symbols;
  when the last symbol fails the result is the empty list.
\<close>

theorem ordered_choice_first_match:
  "(symbols \<noteq> [] \<longrightarrow>
      (\<forall>res s'. parse_ordered_choice symbols self = Some (res, s') \<longrightarrow>
         (\<exists>r. res = Inr [r]) \<or>
         (res = Inr [] \<and> pos s' = pos self \<and> current_token s' = current_token self))) \<and>
   (\<forall>r s'. symbol self = Some (Inr r, s') \<longrightarrow>
      parse_ordered_choice (symbol # symbols) self = Some (Inr [r], s')) \<and>
   (\<forall>e s'. symbol self = Some (Inl e, s') \<longrightarrow>
      parse_ordered_choice [symbol] self =
        Some (Inr [], restore (pos self) (current_token self) s')) \<and>
   (\<forall>e s'. symbol self = Some (Inl e, s') \<and> symbols \<noteq> [] \<longrightarrow>
      parse_ordered_choice (symbol # symbols) self =
        parse_ordered_choice symbols (restore (pos self) (current_token self) s'))"
proof (intro conjI allI impI)
  fix res s'
  assume "symbols \<noteq> []" "parse_ordered_choice symbols self = Some (res, s')"
  then have "ordered_choice_loop (pos self) (current_token self) symbols self = Some (res, s')"
    by (simp add: parse_ordered_choice_def)
  from ordered_choice_loop_result [OF this refl refl]
  show "(\<exists>r. res = Inr [r]) \<or>
        (res = Inr [] \<and> pos s' = pos self \<and> current_token s' = current_token self)"
    by blast
qed (simp_all add: parse_ordered_choice_def restore_def Let_def)

theorem ordered_choice_first_match_witness:
  "[primary (\<lambda>_. None :: unit option) (Suc 0), \<lambda>s. Some (Inr Empty, s)] \<noteq> [] \<and>
   parse_ordered_choice [primary (\<lambda>_. None :: unit option) (Suc 0)] (init_parser [Token_EOF]) =
     Some (Inr [], init_parser [Token_EOF]) \<and>
   parse_ordered_choice
       [primary (\<lambda>_. None :: unit option) (Suc 0), \<lambda>s. Some (Inr Empty, s)]
       (init_parser [Token_EOF]) =
     Some (Inr [Empty], init_parser [Token_EOF]) \<and>
   parse_ordered_choice
       [primary (\<lambda>_. None :: unit option) (Suc 0), \<lambda>s. None]
       (init_parser [mk_token IDENTIFIER ''x'', Token_EOF]) =
     Some (Inr [Identifier (Some ''x'')],
           \<lparr>tokens = [mk_token IDENTIFIER ''x'', Token_EOF], pos = 1,
            current_token = Token_EOF\<rparr>)"
  using
    ordered_choice_first_match
      [where symbol = "primary (\<lambda>_. None :: unit option) (Suc 0)"
         and symbols = "[\<lambda>s. Some (Inr Empty, s)]" and self = "init_parser [Token_EOF]"]
    ordered_choice_first_match
      [where symbol = "\<lambda>s. Some (Inr (Empty :: unit ast), s)"
         and symbols = "[]" and self = "init_parser [Token_EOF]"]
    ordered_choice_first_match
      [where symbol = "primary (\<lambda>_. None :: unit option) (Suc 0)"
         and symbols = "[\<lambda>s. None]"
         and self = "init_parser [mk_token IDENTIFIER ''x'', Token_EOF]"]
    ordered_choice_first_match
      [where symbol = "primary (\<lambda>_. None :: unit option) (Suc 0)"
         and symbols = "[primary (\<lambda>_. None :: unit option) (Suc 0)]"
         and self = "init_parser [Token_EOF]"]
  by (simp add: cursor_defs)

text \<open>
  Claim C3 as stated, for every list of symbols, fails on the empty list: the guard at the
  head of \<open>parse_ordered_choice\<close> raises.
\<close>

theorem ordered_choice_empty_raises:
  "parse_ordered_choice ([] :: unit symbol list) (init_parser []) =
     Some (Inl (SyntaxError ''Syntax error. Empty ordered choice.'' None), init_parser [])"
  by (simp add: parse_ordered_choice_def)

section \<open>Left associativity\<close>

lemma chain_rest_simps:
  "chain_rest [] = [Token_EOF]"
  "chain_rest (x # xs) = mk_token MINUS ''-'' # mk_token IDENTIFIER x # chain_rest xs"
  by (simp_all add: chain_rest_def)

lemma length_chain_rest: "length (chain_rest xs) = 2 * length xs + 1"
  by (induction xs) (simp_all add: chain_rest_simps)

lemma chain_rest_head:
  "chain_rest xs ! 0 = Token_EOF \<or> chain_rest xs ! 0 = mk_token MINUS ''-''"
  by (cases xs) (simp_all add: chain_rest_simps)

lemma multiplicative_at_identifier:
  assumes "toks ! p = mk_token IDENTIFIER x" "Suc p < length toks"
    "toks ! Suc p = Token_EOF \<or> toks ! Suc p = mk_token MINUS ''-''"
  shows "multiplicative (primary pyfloat (Suc n))
           \<lparr>tokens = toks, pos = p, current_token = toks ! p\<rparr> =
         Some (Inr (Identifier (Some x)),
               \<lparr>tokens = toks, pos = Suc p, current_token = toks ! Suc p\<rparr>)"
proof -
  have first: "primary pyfloat (Suc n) \<lparr>tokens = toks, pos = p, current_token = toks ! p\<rparr> =
      Some (Inr (Identifier (Some x)),
            \<lparr>tokens = toks, pos = Suc p, current_token = toks ! Suc p\<rparr>)"
    using assms(1,2) by (simp add: cursor_defs)
  have no_op: "type (toks ! Suc p) \<noteq> MUL" "type (toks ! Suc p) \<noteq> DIV"
    using assms(3) by (auto simp: Token_EOF_def mk_token_def)
  have rest: "multiplicative_loop (primary pyfloat (Suc n)) sp stok left
      \<lparr>tokens = toks, pos = Suc p, current_token = toks ! Suc p\<rparr> =
      Some (Inr left, \<lparr>tokens = toks, pos = Suc p, current_token = toks ! Suc p\<rparr>)"
    for sp stok left
    by (subst multiplicative_loop.simps) (simp add: consume_token_def no_op)
  show ?thesis
    unfolding multiplicative_def by (simp only: first Let_def) (simp add: rest)
qed

lemma additive_loop_chain:
  "additive_loop (multiplicative (primary pyfloat (Suc n))) sp stok left
     \<lparr>tokens = pre @ chain_rest xs, pos = length pre, current_token = chain_rest xs ! 0\<rparr> =
   Some (Inr (foldl (\<lambda>left x. BinaryExpr ''-'' left (Identifier (Some x))) left xs),
         \<lparr>tokens = pre @ chain_rest xs, pos = length pre + 2 * length xs,
          current_token = Token_EOF\<rparr>)"
proof (induction xs arbitrary: pre left)
  case Nil
  show ?case
    by (subst additive_loop.simps) (simp add: chain_rest_simps cursor_defs)
next
  case (Cons x xs)
  let ?toks = "pre @ chain_rest (x # xs)"
  let ?pre' = "pre @ [mk_token MINUS ''-'', mk_token IDENTIFIER x]"
  have toks: "?toks = ?pre' @ chain_rest xs"
    by (simp add: chain_rest_simps)
  have m: "multiplicative (primary pyfloat (Suc n))
             \<lparr>tokens = ?toks, pos = Suc (length pre), current_token = ?toks ! Suc (length pre)\<rparr> =
           Some (Inr (Identifier (Some x)),
                 \<lparr>tokens = ?toks, pos = Suc (Suc (length pre)),
                  current_token = ?toks ! Suc (Suc (length pre))\<rparr>)"
    apply (rule multiplicative_at_identifier)
    using chain_rest_head [of xs]
    by (auto simp: chain_rest_simps nth_append length_chain_rest)
  have nxt: "?toks ! Suc (Suc (length pre)) = chain_rest xs ! 0"
    by (simp add: chain_rest_simps nth_append)
  have cur: "?toks ! Suc (length pre) = mk_token IDENTIFIER x"
    by (simp add: chain_rest_simps nth_append)
  have step: "additive_loop (multiplicative (primary pyfloat (Suc n))) sp stok left
     \<lparr>tokens = ?toks, pos = length pre, current_token = chain_rest (x # xs) ! 0\<rparr> =
     additive_loop (multiplicative (primary pyfloat (Suc n))) sp stok
       (BinaryExpr ''-'' left (Identifier (Some x)))
       \<lparr>tokens = ?toks, pos = Suc (Suc (length pre)),
        current_token = ?toks ! Suc (Suc (length pre))\<rparr>"
    apply (subst additive_loop.simps)
    using m
    by (simp add: chain_rest_simps consume_token_def advance_to_next_token_def
          mk_token_def Let_def nth_append length_chain_rest)
  have st: "\<lparr>tokens = ?toks, pos = Suc (Suc (length pre)),
             current_token = ?toks ! Suc (Suc (length pre))\<rparr> =
            \<lparr>tokens = ?pre' @ chain_rest xs, pos = length ?pre',
             current_token = chain_rest xs ! 0\<rparr>"
    by (simp add: chain_rest_simps nth_append)
  show ?case
    apply (simp only: step st)
    apply (simp only: Cons.IH)
    apply (simp add: chain_rest_simps)
    done
qed

lemma additive_chain:
  "additive (multiplicative (primary pyfloat (Suc n))) (init_parser (minus_chain a xs)) =
   Some (Inr (minus_tree a xs),
         \<lparr>tokens = minus_chain a xs, pos = 2 * length xs + 1, current_token = Token_EOF\<rparr>)"
proof -
  let ?toks = "minus_chain a xs"
  have m: "multiplicative (primary pyfloat (Suc n))
             \<lparr>tokens = ?toks, pos = 0, current_token = ?toks ! 0\<rparr> =
           Some (Inr (Identifier (Some a)),
                 \<lparr>tokens = ?toks, pos = Suc 0, current_token = ?toks ! Suc 0\<rparr>)"
    apply (rule multiplicative_at_identifier)
    using chain_rest_head [of xs]
    by (auto simp: minus_chain_def length_chain_rest)
  have i: "init_parser ?toks = \<lparr>tokens = ?toks, pos = 0, current_token = ?toks ! 0\<rparr>"
    by (simp add: init_parser_def minus_chain_def)
  have l: "additive_loop (multiplicative (primary pyfloat (Suc n))) 0 (?toks ! 0)
             (Identifier (Some a))
             \<lparr>tokens = ?toks, pos = Suc 0, current_token = ?toks ! Suc 0\<rparr> =
           Some (Inr (minus_tree a xs),
             \<lparr>tokens = ?toks, pos = 2 * length xs + 1, current_token = Token_EOF\<rparr>)"
    using additive_loop_chain [of pyfloat n 0 "?toks ! 0" "Identifier (Some a)"
        "[mk_token IDENTIFIER a]" xs]
    by (simp add: minus_chain_def minus_tree_def)
  show ?thesis
    unfolding i
    by (subst additive_def) (simp add: m l Let_def)
qed

subsection \<open>Every level folds its chain to the left\<close>

text \<open>
  One lemma for each loop: along a chain the loop returns the left fold of the operands
  it is given, and whatever tree the loop returns is the left fold of a chain.
\<close>

lemma fold_left_simps:
  "fold_left l [] = l"
  "fold_left l ((op, r) # steps) = fold_left (BinaryExpr op l r) steps"
  by (simp_all add: fold_left_def)

lemma multiplicative_loop_folds:
  "chain_steps [(MUL, ''*''), (DIV, ''/'')] operand self steps fin \<Longrightarrow>
   multiplicative_loop operand sp st left self = Some (Inr (fold_left left steps), fin)"
proof (induction steps arbitrary: left self)
  case Nil
  then show ?case
    by (subst multiplicative_loop.simps)
       (auto simp: op_at_def consume_token_def fold_left_simps split: if_splits)
next
  case (Cons a steps)
  obtain op r where a: "a = (op, r)" by (cases a)
  show ?case
    apply (subst multiplicative_loop.simps)
    using Cons.prems Cons.IH unfolding a
    by (auto simp: op_at_def consume_token_def fold_left_simps Let_def
             split: if_splits option.splits sum.splits prod.splits)
qed

lemma multiplicative_folds:
  "operand self = Some (Inr first, s1) \<Longrightarrow>
   chain_steps [(MUL, ''*''), (DIV, ''/'')] operand s1 steps fin \<Longrightarrow>
   multiplicative operand self = Some (Inr (fold_left first steps), fin)"
  by (simp add: multiplicative_def Let_def multiplicative_loop_folds)

lemma additive_loop_folds:
  "chain_steps [(PLUS, ''+''), (MINUS, ''-'')] operand self steps fin \<Longrightarrow>
   additive_loop operand sp st left self = Some (Inr (fold_left left steps), fin)"
proof (induction steps arbitrary: left self)
  case Nil
  then show ?case
    by (subst additive_loop.simps)
       (auto simp: op_at_def consume_token_def fold_left_simps split: if_splits)
next
  case (Cons a steps)
  obtain op r where a: "a = (op, r)" by (cases a)
  show ?case
    apply (subst additive_loop.simps)
    using Cons.prems Cons.IH unfolding a
    by (auto simp: op_at_def consume_token_def fold_left_simps Let_def
             split: if_splits option.splits sum.splits prod.splits)
qed

lemma additive_folds:
  "operand self = Some (Inr first, s1) \<Longrightarrow>
   chain_steps [(PLUS, ''+''), (MINUS, ''-'')] operand s1 steps fin \<Longrightarrow>
   additive operand self = Some (Inr (fold_left first steps), fin)"
  by (simp add: additive_def Let_def additive_loop_folds)

lemma relational_loop_folds:
  "chain_steps [(LT, ''<''), (GT, ''>''), (LTE, ''<=''), (GTE, ''>='')] operand self steps fin \<Longrightarrow>
   relational_loop operand sp st left self = Some (Inr (fold_left left steps), fin)"
proof (induction steps arbitrary: left self)
  case Nil
  then show ?case
    by (subst relational_loop.simps)
       (auto simp: op_at_def consume_token_def fold_left_simps split: if_splits)
next
  case (Cons a steps)
  obtain op r where a: "a = (op, r)" by (cases a)
  show ?case
    apply (subst relational_loop.simps)
    using Cons.prems Cons.IH unfolding a
    by (auto simp: op_at_def consume_token_def fold_left_simps Let_def
             split: if_splits option.splits sum.splits prod.splits)
qed

lemma relational_folds:
  "operand self = Some (Inr first, s1) \<Longrightarrow>
   chain_steps [(LT, ''<''), (GT, ''>''), (LTE, ''<=''), (GTE, ''>='')] operand s1 steps fin \<Longrightarrow>
   relational operand self = Some (Inr (fold_left first steps), fin)"
  by (simp add: relational_def Let_def relational_loop_folds)

lemma equality_loop_folds:
  "chain_steps [(EQ, ''==''), (NEQ, ''!='')] operand self steps fin \<Longrightarrow>
   equality_loop operand sp st left self = Some (Inr (fold_left left steps), fin)"
proof (induction steps arbitrary: left self)
  case Nil
  then show ?case
    by (subst equality_loop.simps)
       (auto simp: op_at_def consume_token_def fold_left_simps split: if_splits)
next
  case (Cons a steps)
  obtain op r where a: "a = (op, r)" by (cases a)
  show ?case
    apply (subst equality_loop.simps)
    using Cons.prems Cons.IH unfolding a
    by (auto simp: op_at_def consume_token_def fold_left_simps Let_def
             split: if_splits option.splits sum.splits prod.splits)
qed

lemma equality_folds:
  "operand self = Some (Inr first, s1) \<Longrightarrow>
   chain_steps [(EQ, ''==''), (NEQ, ''!='')] operand s1 steps fin \<Longrightarrow>
   equality operand self = Some (Inr (fold_left first steps), fin)"
  by (simp add: equality_def Let_def equality_loop_folds)

lemma logical_and_loop_folds:
  "chain_steps [(AND, ''&&'')] operand self steps fin \<Longrightarrow>
   logical_and_loop operand sp st left self = Some (Inr (fold_left left steps), fin)"
proof (induction steps arbitrary: left self)
  case Nil
  then show ?case
    by (subst logical_and_loop.simps)
       (auto simp: op_at_def consume_token_def fold_left_simps split: if_splits)
next
  case (Cons a steps)
  obtain op r where a: "a = (op, r)" by (cases a)
  show ?case
    apply (subst logical_and_loop.simps)
    using Cons.prems Cons.IH unfolding a
    by (auto simp: op_at_def consume_token_def fold_left_simps Let_def
             split: if_splits option.splits sum.splits prod.splits)
qed

lemma logical_and_folds:
  "operand self = Some (Inr first, s1) \<Longrightarrow>
   chain_steps [(AND, ''&&'')] operand s1 steps fin \<Longrightarrow>
   logical_and operand self = Some (Inr (fold_left first steps), fin)"
  by (simp add: logical_and_def Let_def logical_and_loop_folds)

lemma logical_or_loop_folds:
  "chain_steps [(OR, ''||'')] operand self steps fin \<Longrightarrow>
   logical_or_loop operand sp st left self = Some (Inr (fold_left left steps), fin)"
proof (induction steps arbitrary: left self)
  case Nil
  then show ?case
    by (subst logical_or_loop.simps)
       (auto simp: op_at_def consume_token_def fold_left_simps split: if_splits)
next
  case (Cons a steps)
  obtain op r where a: "a = (op, r)" by (cases a)
  show ?case
    apply (subst logical_or_loop.simps)
    using Cons.prems Cons.IH unfolding a
    by (auto simp: op_at_def consume_token_def fold_left_simps Let_def
             split: if_splits option.splits sum.splits prod.splits)
qed

lemma logical_or_folds:
  "operand self = Some (Inr first, s1) \<Longrightarrow>
   chain_steps [(OR, ''||'')] operand s1 steps fin \<Longrightarrow>
   logical_or operand self = Some (Inr (fold_left first steps), fin)"
  by (simp add: logical_or_def Let_def logical_or_loop_folds)

lemma multiplicative_loop_steps:
  assumes "multiplicative_loop operand sp st left self = Some y"
  shows "\<forall>t fin. y = (Inr t, fin) \<longrightarrow>
     (\<exists>steps. chain_steps [(MUL, ''*''), (DIV, ''/'')] operand self steps fin \<and>
        t = fold_left left steps)"
  apply (rule multiplicative_loop.raw_induct
      [where P = "\<lambda>operand sp st left self y. \<forall>t fin. y = (Inr t, fin) \<longrightarrow>
     (\<exists>steps. chain_steps [(MUL, ''*''), (DIV, ''/'')] operand self steps fin \<and>
        t = fold_left left steps)", OF _ assms])
  subgoal premises prems for f operand sp st left self y
  proof (intro allI impI)
    fix t fin assume y: "y = (Inr t, fin)"
    show "\<exists>steps. chain_steps [(MUL, ''*''), (DIV, ''/'')] operand self steps fin \<and>
        t = fold_left left steps"
    proof (cases "op_at [(MUL, ''*''), (DIV, ''/'')] (current_token self)")
      case None
      then have "y = (Inr left, self)"
        using prems(2) by (auto simp: op_at_def consume_token_def split: if_splits)
      with y None show ?thesis
        by (intro exI [of _ "[]"]) (simp add: fold_left_simps)
    next
      case (Some op)
      then obtain r s2 where r: "operand (snd (advance_to_next_token self)) = Some (Inr r, s2)"
        and f: "f operand sp st (BinaryExpr op left r) s2 = Some y"
        using prems(2) y
        by (auto simp: op_at_def consume_token_def Let_def
                 split: if_splits option.splits sum.splits prod.splits)
      from prems(1) [OF f] y obtain steps where
        "chain_steps [(MUL, ''*''), (DIV, ''/'')] operand s2 steps fin" "t = fold_left (BinaryExpr op left r) steps"
        by blast
      with Some r show ?thesis
        by (intro exI [of _ "(op, r) # steps"]) (simp add: fold_left_simps)
    qed
  qed
  done

lemma multiplicative_folds_iff:
  "multiplicative operand self = Some (Inr t, fin) \<longleftrightarrow>
   (\<exists>first s1 steps. operand self = Some (Inr first, s1) \<and>
      chain_steps [(MUL, ''*''), (DIV, ''/'')] operand s1 steps fin \<and> t = fold_left first steps)"
proof
  assume a: "multiplicative operand self = Some (Inr t, fin)"
  then obtain first s1 where o: "operand self = Some (Inr first, s1)"
    and l: "multiplicative_loop operand (pos self) (current_token self) first s1 = Some (Inr t, fin)"
    by (auto simp: multiplicative_def Let_def split: option.splits sum.splits prod.splits)
  from multiplicative_loop_steps [OF l] o show
    "\<exists>first s1 steps. operand self = Some (Inr first, s1) \<and>
      chain_steps [(MUL, ''*''), (DIV, ''/'')] operand s1 steps fin \<and> t = fold_left first steps"
    by blast
next
  assume "\<exists>first s1 steps. operand self = Some (Inr first, s1) \<and>
      chain_steps [(MUL, ''*''), (DIV, ''/'')] operand s1 steps fin \<and> t = fold_left first steps"
  then show "multiplicative operand self = Some (Inr t, fin)"
    using multiplicative_folds by blast
qed

lemma additive_loop_steps:
  assumes "additive_loop operand sp st left self = Some y"
  shows "\<forall>t fin. y = (Inr t, fin) \<longrightarrow>
     (\<exists>steps. chain_steps [(PLUS, ''+''), (MINUS, ''-'')] operand self steps fin \<and>
        t = fold_left left steps)"
  apply (rule additive_loop.raw_induct
      [where P = "\<lambda>operand sp st left self y. \<forall>t fin. y = (Inr t, fin) \<longrightarrow>
     (\<exists>steps. chain_steps [(PLUS, ''+''), (MINUS, ''-'')] operand self steps fin \<and>
        t = fold_left left steps)", OF _ assms])
  subgoal premises prems for f operand sp st left self y
  proof (intro allI impI)
    fix t fin assume y: "y = (Inr t, fin)"
    show "\<exists>steps. chain_steps [(PLUS, ''+''), (MINUS, ''-'')] operand self steps fin \<and>
        t = fold_left left steps"
    proof (cases "op_at [(PLUS, ''+''), (MINUS, ''-'')] (current_token self)")
      case None
      then have "y = (Inr left, self)"
        using prems(2) by (auto simp: op_at_def consume_token_def split: if_splits)
      with y None show ?thesis
        by (intro exI [of _ "[]"]) (simp add: fold_left_simps)
    next
      case (Some op)
      then obtain r s2 where r: "operand (snd (advance_to_next_token self)) = Some (Inr r, s2)"
        and f: "f operand sp st (BinaryExpr op left r) s2 = Some y"
        using prems(2) y
        by (auto simp: op_at_def consume_token_def Let_def
                 split: if_splits option.splits sum.splits prod.splits)
      from prems(1) [OF f] y obtain steps where
        "chain_steps [(PLUS, ''+''), (MINUS, ''-'')] operand s2 steps fin" "t = fold_left (BinaryExpr op left r) steps"
        by blast
      with Some r show ?thesis
        by (intro exI [of _ "(op, r) # steps"]) (simp add: fold_left_simps)
    qed
  qed
  done

lemma additive_folds_iff:
  "additive operand self = Some (Inr t, fin) \<longleftrightarrow>
   (\<exists>first s1 steps. operand self = Some (Inr first, s1) \<and>
      chain_steps [(PLUS, ''+''), (MINUS, ''-'')] operand s1 steps fin \<and> t = fold_left first steps)"
proof
  assume a: "additive operand self = Some (Inr t, fin)"
  then obtain first s1 where o: "operand self = Some (Inr first, s1)"
    and l: "additive_loop operand (pos self) (current_token self) first s1 = Some (Inr t, fin)"
    by (auto simp: additive_def Let_def split: option.splits sum.splits prod.splits)
  from additive_loop_steps [OF l] o show
    "\<exists>first s1 steps. operand self = Some (Inr first, s1) \<and>
      chain_steps [(PLUS, ''+''), (MINUS, ''-'')] operand s1 steps fin \<and> t = fold_left first steps"
    by blast
next
  assume "\<exists>first s1 steps. operand self = Some (Inr first, s1) \<and>
      chain_steps [(PLUS, ''+''), (MINUS, ''-'')] operand s1 steps fin \<and> t = fold_left first steps"
  then show "additive operand self = Some (Inr t, fin)"
    using additive_folds by blast
qed

lemma relational_loop_steps:
  assumes "relational_loop operand sp st left self = Some y"
  shows "\<forall>t fin. y = (Inr t, fin) \<longrightarrow>
     (\<exists>steps. chain_steps [(LT, ''<''), (GT, ''>''), (LTE, ''<=''), (GTE, ''>='')] operand self steps fin \<and>
        t = fold_left left steps)"
  apply (rule relational_loop.raw_induct
      [where P = "\<lambda>operand sp st left self y. \<forall>t fin. y = (Inr t, fin) \<longrightarrow>
     (\<exists>steps. chain_steps [(LT, ''<''), (GT, ''>''), (LTE, ''<=''), (GTE, ''>='')] operand self steps fin \<and>
        t = fold_left left steps)", OF _ assms])
  subgoal premises prems for f operand sp st left self y
  proof (intro allI impI)
    fix t fin assume y: "y = (Inr t, fin)"
    show "\<exists>steps. chain_steps [(LT, ''<''), (GT, ''>''), (LTE, ''<=''), (GTE, ''>='')] operand self steps fin \<and>
        t = fold_left left steps"
    proof (cases "op_at [(LT, ''<''), (GT, ''>''), (LTE, ''<=''), (GTE, ''>='')] (current_token self)")
      case None
      then have "y = (Inr left, self)"
        using prems(2) by (auto simp: op_at_def consume_token_def split: if_splits)
      with y None show ?thesis
        by (intro exI [of _ "[]"]) (simp add: fold_left_simps)
    next
      case (Some op)
      then obtain r s2 where r: "operand (snd (advance_to_next_token self)) = Some (Inr r, s2)"
        and f: "f operand sp st (BinaryExpr op left r) s2 = Some y"
        using prems(2) y
        by (auto simp: op_at_def consume_token_def Let_def
                 split: if_splits option.splits sum.splits prod.splits)
      from prems(1) [OF f] y obtain steps where
        "chain_steps [(LT, ''<''), (GT, ''>''), (LTE, ''<=''), (GTE, ''>='')] operand s2 steps fin" "t = fold_left (BinaryExpr op left r) steps"
        by blast
      with Some r show ?thesis
        by (intro exI [of _ "(op, r) # steps"]) (simp add: fold_left_simps)
    qed
  qed
  done

lemma relational_folds_iff:
  "relational operand self = Some (Inr t, fin) \<longleftrightarrow>
   (\<exists>first s1 steps. operand self = Some (Inr first, s1) \<and>
      chain_steps [(LT, ''<''), (GT, ''>''), (LTE, ''<=''), (GTE, ''>='')] operand s1 steps fin \<and> t = fold_left first steps)"
proof
  assume a: "relational operand self = Some (Inr t, fin)"
  then obtain first s1 where o: "operand self = Some (Inr first, s1)"
    and l: "relational_loop operand (pos self) (current_token self) first s1 = Some (Inr t, fin)"
    by (auto simp: relational_def Let_def split: option.splits sum.splits prod.splits)
  from relational_loop_steps [OF l] o show
    "\<exists>first s1 steps. operand self = Some (Inr first, s1) \<and>
      chain_steps [(LT, ''<''), (GT, ''>''), (LTE, ''<=''), (GTE, ''>='')] operand s1 steps fin \<and> t = fold_left first steps"
    by blast
next
  assume "\<exists>first s1 steps. operand self = Some (Inr first, s1) \<and>
      chain_steps [(LT, ''<''), (GT, ''>''), (LTE, ''<=''), (GTE, ''>='')] operand s1 steps fin \<and> t = fold_left first steps"
  then show "relational operand self = Some (Inr t, fin)"
    using relational_folds by blast
qed

lemma equality_loop_steps:
  assumes "equality_loop operand sp st left self = Some y"
  shows "\<forall>t fin. y = (Inr t, fin) \<longrightarrow>
     (\<exists>steps. chain_steps [(EQ, ''==''), (NEQ, ''!='')] operand self steps fin \<and>
        t = fold_left left steps)"
  apply (rule equality_loop.raw_induct
      [where P = "\<lambda>operand sp st left self y. \<forall>t fin. y = (Inr t, fin) \<longrightarrow>
     (\<exists>steps. chain_steps [(EQ, ''==''), (NEQ, ''!='')] operand self steps fin \<and>
        t = fold_left left steps)", OF _ assms])
  subgoal premises prems for f operand sp st left self y
  proof (intro allI impI)
    fix t fin assume y: "y = (Inr t, fin)"
    show "\<exists>steps. chain_steps [(EQ, ''==''), (NEQ, ''!='')] operand self steps fin \<and>
        t = fold_left left steps"
    proof (cases "op_at [(EQ, ''==''), (NEQ, ''!='')] (current_token self)")
      case None
      then have "y = (Inr left, self)"
        using prems(2) by (auto simp: op_at_def consume_token_def split: if_splits)
      with y None show ?thesis
        by (intro exI [of _ "[]"]) (simp add: fold_left_simps)
    next
      case (Some op)
      then obtain r s2 where r: "operand (snd (advance_to_next_token self)) = Some (Inr r, s2)"
        and f: "f operand sp st (BinaryExpr op left r) s2 = Some y"
        using prems(2) y
        by (auto simp: op_at_def consume_token_def Let_def
                 split: if_splits option.splits sum.splits prod.splits)
      from prems(1) [OF f] y obtain steps where
        "chain_steps [(EQ, ''==''), (NEQ, ''!='')] operand s2 steps fin" "t = fold_left (BinaryExpr op left r) steps"
        by blast
      with Some r show ?thesis
        by (intro exI [of _ "(op, r) # steps"]) (simp add: fold_left_simps)
    qed
  qed
  done

lemma equality_folds_iff:
  "equality operand self = Some (Inr t, fin) \<longleftrightarrow>
   (\<exists>first s1 steps. operand self = Some (Inr first, s1) \<and>
      chain_steps [(EQ, ''==''), (NEQ, ''!='')] operand s1 steps fin \<and> t = fold_left first steps)"
proof
  assume a: "equality operand self = Some (Inr t, fin)"
  then obtain first s1 where o: "operand self = Some (Inr first, s1)"
    and l: "equality_loop operand (pos self) (current_token self) first s1 = Some (Inr t, fin)"
    by (auto simp: equality_def Let_def split: option.splits sum.splits prod.splits)
  from equality_loop_steps [OF l] o show
    "\<exists>first s1 steps. operand self = Some (Inr first, s1) \<and>
      chain_steps [(EQ, ''==''), (NEQ, ''!='')] operand s1 steps fin \<and> t = fold_left first steps"
    by blast
next
  assume "\<exists>first s1 steps. operand self = Some (Inr first, s1) \<and>
      chain_steps [(EQ, ''==''), (NEQ, ''!='')] operand s1 steps fin \<and> t = fold_left first steps"
  then show "equality operand self = Some (Inr t, fin)"
    using equality_folds by blast
qed

lemma logical_and_loop_steps:
  assumes "logical_and_loop operand sp st left self = Some y"
  shows "\<forall>t fin. y = (Inr t, fin) \<longrightarrow>
     (\<exists>steps. chain_steps [(AND, ''&&'')] operand self steps fin \<and>
        t = fold_left left steps)"
  apply (rule logical_and_loop.raw_induct
      [where P = "\<lambda>operand sp st left self y. \<forall>t fin. y = (Inr t, fin) \<longrightarrow>
     (\<exists>steps. chain_steps [(AND, ''&&'')] operand self steps fin \<and>
        t = fold_left left steps)", OF _ assms])
  subgoal premises prems for f operand sp st left self y
  proof (intro allI impI)
    fix t fin assume y: "y = (Inr t, fin)"
    show "\<exists>steps. chain_steps [(AND, ''&&'')] operand self steps fin \<and>
        t = fold_left left steps"
    proof (cases "op_at [(AND, ''&&'')] (current_token self)")
      case None
      then have "y = (Inr left, self)"
        using prems(2) by (auto simp: op_at_def consume_token_def split: if_splits)
      with y None show ?thesis
        by (intro exI [of _ "[]"]) (simp add: fold_left_simps)
    next
      case (Some op)
      then obtain r s2 where r: "operand (snd (advance_to_next_token self)) = Some (Inr r, s2)"
        and f: "f operand sp st (BinaryExpr op left r) s2 = Some y"
        using prems(2) y
        by (auto simp: op_at_def consume_token_def Let_def
                 split: if_splits option.splits sum.splits prod.splits)
      from prems(1) [OF f] y obtain steps where
        "chain_steps [(AND, ''&&'')] operand s2 steps fin" "t = fold_left (BinaryExpr op left r) steps"
        by blast
      with Some r show ?thesis
        by (intro exI [of _ "(op, r) # steps"]) (simp add: fold_left_simps)
    qed
  qed
  done

lemma logical_and_folds_iff:
  "logical_and operand self = Some (Inr t, fin) \<longleftrightarrow>
   (\<exists>first s1 steps. operand self = Some (Inr first, s1) \<and>
      chain_steps [(AND, ''&&'')] operand s1 steps fin \<and> t = fold_left first steps)"
proof
  assume a: "logical_and operand self = Some (Inr t, fin)"
  then obtain first s1 where o: "operand self = Some (Inr first, s1)"
    and l: "logical_and_loop operand (pos self) (current_token self) first s1 = Some (Inr t, fin)"
    by (auto simp: logical_and_def Let_def split: option.splits sum.splits prod.splits)
  from logical_and_loop_steps [OF l] o show
    "\<exists>first s1 steps. operand self = Some (Inr first, s1) \<and>
      chain_steps [(AND, ''&&'')] operand s1 steps fin \<and> t = fold_left first steps"
    by blast
next
  assume "\<exists>first s1 steps. operand self = Some (Inr first, s1) \<and>
      chain_steps [(AND, ''&&'')] operand s1 steps fin \<and> t = fold_left first steps"
  then show "logical_and operand self = Some (Inr t, fin)"
    using logical_and_folds by blast
qed

lemma logical_or_loop_steps:
  assumes "logical_or_loop operand sp st left self = Some y"
  shows "\<forall>t fin. y = (Inr t, fin) \<longrightarrow>
     (\<exists>steps. chain_steps [(OR, ''||'')] operand self steps fin \<and>
        t = fold_left left steps)"
  apply (rule logical_or_loop.raw_induct
      [where P = "\<lambda>operand sp st left self y. \<forall>t fin. y = (Inr t, fin) \<longrightarrow>
     (\<exists>steps. chain_steps [(OR, ''||'')] operand self steps fin \<and>
        t = fold_left left steps)", OF _ assms])
  subgoal premises prems for f operand sp st left self y
  proof (intro allI impI)
    fix t fin assume y: "y = (Inr t, fin)"
    show "\<exists>steps. chain_steps [(OR, ''||'')] operand self steps fin \<and>
        t = fold_left left steps"
    proof (cases "op_at [(OR, ''||'')] (current_token self)")
      case None
      then have "y = (Inr left, self)"
        using prems(2) by (auto simp: op_at_def consume_token_def split: if_splits)
      with y None show ?thesis
        by (intro exI [of _ "[]"]) (simp add: fold_left_simps)
    next
      case (Some op)
      then obtain r s2 where r: "operand (snd (advance_to_next_token self)) = Some (Inr r, s2)"
        and f: "f operand sp st (BinaryExpr op left r) s2 = Some y"
        using prems(2) y
        by (auto simp: op_at_def consume_token_def Let_def
                 split: if_splits option.splits sum.splits prod.splits)
      from prems(1) [OF f] y obtain steps where
        "chain_steps [(OR, ''||'')] operand s2 steps fin" "t = fold_left (BinaryExpr op left r) steps"
        by blast
      with Some r show ?thesis
        by (intro exI [of _ "(op, r) # steps"]) (simp add: fold_left_simps)
    qed
  qed
  done

lemma logical_or_folds_iff:
  "logical_or operand self = Some (Inr t, fin) \<longleftrightarrow>
   (\<exists>first s1 steps. operand self = Some (Inr first, s1) \<and>
      chain_steps [(OR, ''||'')] operand s1 steps fin \<and> t = fold_left first steps)"
proof
  assume a: "logical_or operand self = Some (Inr t, fin)"
  then obtain first s1 where o: "operand self = Some (Inr first, s1)"
    and l: "logical_or_loop operand (pos self) (current_token self) first s1 = Some (Inr t, fin)"
    by (auto simp: logical_or_def Let_def split: option.splits sum.splits prod.splits)
  from logical_or_loop_steps [OF l] o show
    "\<exists>first s1 steps. operand self = Some (Inr first, s1) \<and>
      chain_steps [(OR, ''||'')] operand s1 steps fin \<and> t = fold_left first steps"
    by blast
next
  assume "\<exists>first s1 steps. operand self = Some (Inr first, s1) \<and>
      chain_steps [(OR, ''||'')] operand s1 steps fin \<and> t = fold_left first steps"
  then show "logical_or operand self = Some (Inr t, fin)"
    using logical_or_folds by blast
qed

text \<open>
  Claim C7. Binary operator chains nest to the left. \<open>a - b - c\<close>, over identifiers
  and over numbers, parses to the tree with \<open>a - b\<close> as left child and \<open>c\<close> as
  right child, and a chain of subtractions of any length parses to \<open>minus_tree\<close>. In
  general, at each of the six levels from \<open>logical_or\<close> to \<open>multiplicative\<close>, and
  for any rule parsing the operands, the rule returns a tree exactly when the input is a
  first operand followed by a chain of the level's operators and operands, and the tree
  is then the left fold of the chain: each operator makes a new node with the tree built so
  far as left child and the next operand as right child.
\<close>

theorem binary_chains_are_left_associative:
  "expression_over (primary pyfloat (Suc n))
     (init_parser [mk_token IDENTIFIER a, mk_token MINUS ''-'', mk_token IDENTIFIER b,
                   mk_token MINUS ''-'', mk_token IDENTIFIER c, Token_EOF]) =
   Some (Inr (BinaryExpr ''-'' (BinaryExpr ''-'' (Identifier (Some a)) (Identifier (Some b)))
                (Identifier (Some c))),
         \<lparr>tokens = [mk_token IDENTIFIER a, mk_token MINUS ''-'', mk_token IDENTIFIER b,
                   mk_token MINUS ''-'', mk_token IDENTIFIER c, Token_EOF],
          pos = 5, current_token = Token_EOF\<rparr>) \<and>
   (pyfloat (Some a) = Some x \<and> pyfloat (Some b) = Some y \<and> pyfloat (Some c) = Some z \<longrightarrow>
    expression_over (primary pyfloat (Suc n))
     (init_parser [mk_token NUMBER a, mk_token MINUS ''-'', mk_token NUMBER b,
                   mk_token MINUS ''-'', mk_token NUMBER c, Token_EOF]) =
    Some (Inr (BinaryExpr ''-'' (BinaryExpr ''-'' (Number x) (Number y)) (Number z)),
         \<lparr>tokens = [mk_token NUMBER a, mk_token MINUS ''-'', mk_token NUMBER b,
                   mk_token MINUS ''-'', mk_token NUMBER c, Token_EOF],
          pos = 5, current_token = Token_EOF\<rparr>)) \<and>
   expression_over (primary pyfloat (Suc n)) (init_parser (minus_chain a xs)) =
   Some (Inr (minus_tree a xs),
         \<lparr>tokens = minus_chain a xs, pos = 2 * length xs + 1, current_token = Token_EOF\<rparr>) \<and>
   (logical_or operand self = Some (Inr t, fin) \<longleftrightarrow>
    (\<exists>first s1 steps. operand self = Some (Inr first, s1) \<and>
       chain_steps [(OR, ''||'')] operand s1 steps fin \<and>
       t = fold_left first steps)) \<and>
   (logical_and operand self = Some (Inr t, fin) \<longleftrightarrow>
    (\<exists>first s1 steps. operand self = Some (Inr first, s1) \<and>
       chain_steps [(AND, ''&&'')] operand s1 steps fin \<and>
       t = fold_left first steps)) \<and>
   (equality operand self = Some (Inr t, fin) \<longleftrightarrow>
    (\<exists>first s1 steps. operand self = Some (Inr first, s1) \<and>
       chain_steps [(EQ, ''==''), (NEQ, ''!='')] operand s1 steps fin \<and>
       t = fold_left first steps)) \<and>
   (relational operand self = Some (Inr t, fin) \<longleftrightarrow>
    (\<exists>first s1 steps. operand self = Some (Inr first, s1) \<and>
       chain_steps [(LT, ''<''), (GT, ''>''), (LTE, ''<=''), (GTE, ''>='')] operand s1 steps fin \<and>
       t = fold_left first steps)) \<and>
   (additive operand self = Some (Inr t, fin) \<longleftrightarrow>
    (\<exists>first s1 steps. operand self = Some (Inr first, s1) \<and>
       chain_steps [(PLUS, ''+''), (MINUS, ''-'')] operand s1 steps fin \<and>
       t = fold_left first steps)) \<and>
   (multiplicative operand self = Some (Inr t, fin) \<longleftrightarrow>
    (\<exists>first s1 steps. operand self = Some (Inr first, s1) \<and>
       chain_steps [(MUL, ''*''), (DIV, ''/'')] operand s1 steps fin \<and>
       t = fold_left first steps))"
proof (intro conjI)
  show "expression_over (primary pyfloat (Suc n)) (init_parser (minus_chain a xs)) =
   Some (Inr (minus_tree a xs),
         \<lparr>tokens = minus_chain a xs, pos = 2 * length xs + 1, current_token = Token_EOF\<rparr>)"
    by (simp add: expression_over_def expression_def logical_or_def logical_and_def
          equality_def relational_def additive_chain Let_def
          logical_or_loop.simps logical_and_loop.simps equality_loop.simps
          relational_loop.simps consume_token_def Token_EOF_def)
qed (rule multiplicative_folds_iff additive_folds_iff relational_folds_iff equality_folds_iff
       logical_and_folds_iff logical_or_folds_iff
     | simp add: cursor_defs combinator_defs rule_defs)+

theorem binary_chains_are_left_associative_witness:
  "expression_over (primary Some (Suc 0))
     (init_parser [mk_token NUMBER ''1'', mk_token MINUS ''-'', mk_token NUMBER ''2'',
                   mk_token MINUS ''-'', mk_token NUMBER ''3'', Token_EOF]) =
   Some (Inr (BinaryExpr ''-'' (BinaryExpr ''-'' (Number (Some ''1'')) (Number (Some ''2'')))
                (Number (Some ''3''))),
         \<lparr>tokens = [mk_token NUMBER ''1'', mk_token MINUS ''-'', mk_token NUMBER ''2'',
                   mk_token MINUS ''-'', mk_token NUMBER ''3'', Token_EOF],
          pos = 5, current_token = Token_EOF\<rparr>) \<and>
   chain_steps [(OR, ''||'')]
     (logical_and (equality (relational (additive (multiplicative (primary Some (Suc 0)))))))
     \<lparr>tokens = [mk_token IDENTIFIER ''a'', mk_token OR ''||'', mk_token IDENTIFIER ''b'',
                   mk_token OR ''||'', mk_token IDENTIFIER ''c'', Token_EOF],
          pos = 1, current_token = mk_token OR ''||''\<rparr>
     [(''||'', Identifier (Some ''b'')), (''||'', Identifier (Some ''c''))]
     \<lparr>tokens = [mk_token IDENTIFIER ''a'', mk_token OR ''||'', mk_token IDENTIFIER ''b'',
                   mk_token OR ''||'', mk_token IDENTIFIER ''c'', Token_EOF],
          pos = 5, current_token = Token_EOF\<rparr> \<and>
   logical_or (logical_and (equality (relational (additive (multiplicative (primary Some (Suc 0)))))))
     (init_parser [mk_token IDENTIFIER ''a'', mk_token OR ''||'', mk_token IDENTIFIER ''b'',
                   mk_token OR ''||'', mk_token IDENTIFIER ''c'', Token_EOF]) =
   Some (Inr (BinaryExpr ''||'' (BinaryExpr ''||'' (Identifier (Some ''a''))
      (Identifier (Some ''b'')))
      (Identifier (Some ''c''))),
         \<lparr>tokens = [mk_token IDENTIFIER ''a'', mk_token OR ''||'', mk_token IDENTIFIER ''b'',
                   mk_token OR ''||'', mk_token IDENTIFIER ''c'', Token_EOF],
          pos = 5, current_token = Token_EOF\<rparr>) \<and>
   chain_steps [(AND, ''&&'')]
     (equality (relational (additive (multiplicative (primary Some (Suc 0))))))
     \<lparr>tokens = [mk_token IDENTIFIER ''a'', mk_token AND ''&&'',
                   mk_token IDENTIFIER ''b'', mk_token AND ''&&'',
                   mk_token IDENTIFIER ''c'', Token_EOF],
          pos = 1, current_token = mk_token AND ''&&''\<rparr>
     [(''&&'', Identifier (Some ''b'')), (''&&'', Identifier (Some ''c''))]
     \<lparr>tokens = [mk_token IDENTIFIER ''a'', mk_token AND ''&&'',
                   mk_token IDENTIFIER ''b'', mk_token AND ''&&'',
                   mk_token IDENTIFIER ''c'', Token_EOF],
          pos = 5, current_token = Token_EOF\<rparr> \<and>
   logical_and (equality (relational (additive (multiplicative (primary Some (Suc 0))))))
     (init_parser [mk_token IDENTIFIER ''a'', mk_token AND ''&&'',
                   mk_token IDENTIFIER ''b'', mk_token AND ''&&'',
                   mk_token IDENTIFIER ''c'', Token_EOF]) =
   Some (Inr (BinaryExpr ''&&'' (BinaryExpr ''&&'' (Identifier (Some ''a''))
      (Identifier (Some ''b'')))
      (Identifier (Some ''c''))),
         \<lparr>tokens = [mk_token IDENTIFIER ''a'', mk_token AND ''&&'',
                   mk_token IDENTIFIER ''b'', mk_token AND ''&&'',
                   mk_token IDENTIFIER ''c'', Token_EOF],
          pos = 5, current_token = Token_EOF\<rparr>) \<and>
   chain_steps [(EQ, ''==''), (NEQ, ''!='')]
     (relational (additive (multiplicative (primary Some (Suc 0)))))
     \<lparr>tokens = [mk_token IDENTIFIER ''a'', mk_token EQ ''=='', mk_token IDENTIFIER ''b'',
                   mk_token NEQ ''!='', mk_token IDENTIFIER ''c'', Token_EOF],
          pos = 1, current_token = mk_token EQ ''==''\<rparr>
     [(''=='', Identifier (Some ''b'')), (''!='', Identifier (Some ''c''))]
     \<lparr>tokens = [mk_token IDENTIFIER ''a'', mk_token EQ ''=='', mk_token IDENTIFIER ''b'',
                   mk_token NEQ ''!='', mk_token IDENTIFIER ''c'', Token_EOF],
          pos = 5, current_token = Token_EOF\<rparr> \<and>
   equality (relational (additive (multiplicative (primary Some (Suc 0)))))
     (init_parser [mk_token IDENTIFIER ''a'', mk_token EQ ''=='', mk_token IDENTIFIER ''b'',
                   mk_token NEQ ''!='', mk_token IDENTIFIER ''c'', Token_EOF]) =
   Some (Inr (BinaryExpr ''!='' (BinaryExpr ''=='' (Identifier (Some ''a''))
      (Identifier (Some ''b'')))
      (Identifier (Some ''c''))),
         \<lparr>tokens = [mk_token IDENTIFIER ''a'', mk_token EQ ''=='', mk_token IDENTIFIER ''b'',
                   mk_token NEQ ''!='', mk_token IDENTIFIER ''c'', Token_EOF],
          pos = 5, current_token = Token_EOF\<rparr>) \<and>
   chain_steps [(LT, ''<''), (GT, ''>''), (LTE, ''<=''), (GTE, ''>='')]
     (additive (multiplicative (primary Some (Suc 0))))
     \<lparr>tokens = [mk_token IDENTIFIER ''a'', mk_token LT ''<'', mk_token IDENTIFIER ''b'',
                   mk_token GT ''>'', mk_token IDENTIFIER ''c'', mk_token LTE ''<='',
                   mk_token IDENTIFIER ''d'', mk_token GTE ''>='',
                   mk_token IDENTIFIER ''e'', Token_EOF],
          pos = 1, current_token = mk_token LT ''<''\<rparr>
     [(''<'', Identifier (Some ''b'')), (''>'', Identifier (Some ''c'')),
       (''<='', Identifier (Some ''d'')), (''>='', Identifier (Some ''e''))]
     \<lparr>tokens = [mk_token IDENTIFIER ''a'', mk_token LT ''<'', mk_token IDENTIFIER ''b'',
                   mk_token GT ''>'', mk_token IDENTIFIER ''c'', mk_token LTE ''<='',
                   mk_token IDENTIFIER ''d'', mk_token GTE ''>='',
                   mk_token IDENTIFIER ''e'', Token_EOF],
          pos = 9, current_token = Token_EOF\<rparr> \<and>
   relational (additive (multiplicative (primary Some (Suc 0))))
     (init_parser [mk_token IDENTIFIER ''a'', mk_token LT ''<'', mk_token IDENTIFIER ''b'',
                   mk_token GT ''>'', mk_token IDENTIFIER ''c'', mk_token LTE ''<='',
                   mk_token IDENTIFIER ''d'', mk_token GTE ''>='',
                   mk_token IDENTIFIER ''e'', Token_EOF]) =
   Some (Inr (BinaryExpr ''>='' (BinaryExpr ''<='' (BinaryExpr ''>'' (BinaryExpr ''<'' (Identifier (Some ''a''))
      (Identifier (Some ''b'')))
      (Identifier (Some ''c'')))
      (Identifier (Some ''d'')))
      (Identifier (Some ''e''))),
         \<lparr>tokens = [mk_token IDENTIFIER ''a'', mk_token LT ''<'', mk_token IDENTIFIER ''b'',
                   mk_token GT ''>'', mk_token IDENTIFIER ''c'', mk_token LTE ''<='',
                   mk_token IDENTIFIER ''d'', mk_token GTE ''>='',
                   mk_token IDENTIFIER ''e'', Token_EOF],
          pos = 9, current_token = Token_EOF\<rparr>) \<and>
   chain_steps [(PLUS, ''+''), (MINUS, ''-'')]
     (multiplicative (primary Some (Suc 0)))
     \<lparr>tokens = [mk_token IDENTIFIER ''a'', mk_token PLUS ''+'',
                   mk_token IDENTIFIER ''b'', mk_token MINUS ''-'',
                   mk_token IDENTIFIER ''c'', Token_EOF],
          pos = 1, current_token = mk_token PLUS ''+''\<rparr>
     [(''+'', Identifier (Some ''b'')), (''-'', Identifier (Some ''c''))]
     \<lparr>tokens = [mk_token IDENTIFIER ''a'', mk_token PLUS ''+'',
                   mk_token IDENTIFIER ''b'', mk_token MINUS ''-'',
                   mk_token IDENTIFIER ''c'', Token_EOF],
          pos = 5, current_token = Token_EOF\<rparr> \<and>
   additive (multiplicative (primary Some (Suc 0)))
     (init_parser [mk_token IDENTIFIER ''a'', mk_token PLUS ''+'',
                   mk_token IDENTIFIER ''b'', mk_token MINUS ''-'',
                   mk_token IDENTIFIER ''c'', Token_EOF]) =
   Some (Inr (BinaryExpr ''-'' (BinaryExpr ''+'' (Identifier (Some ''a''))
      (Identifier (Some ''b'')))
      (Identifier (Some ''c''))),
         \<lparr>tokens = [mk_token IDENTIFIER ''a'', mk_token PLUS ''+'',
                   mk_token IDENTIFIER ''b'', mk_token MINUS ''-'',
                   mk_token IDENTIFIER ''c'', Token_EOF],
          pos = 5, current_token = Token_EOF\<rparr>) \<and>
   chain_steps [(MUL, ''*''), (DIV, ''/'')]
     (primary Some (Suc 0))
     \<lparr>tokens = [mk_token IDENTIFIER ''a'', mk_token MUL ''*'', mk_token IDENTIFIER ''b'',
                   mk_token DIV ''/'', mk_token IDENTIFIER ''c'', Token_EOF],
          pos = 1, current_token = mk_token MUL ''*''\<rparr>
     [(''*'', Identifier (Some ''b'')), (''/'', Identifier (Some ''c''))]
     \<lparr>tokens = [mk_token IDENTIFIER ''a'', mk_token MUL ''*'', mk_token IDENTIFIER ''b'',
                   mk_token DIV ''/'', mk_token IDENTIFIER ''c'', Token_EOF],
          pos = 5, current_token = Token_EOF\<rparr> \<and>
   multiplicative (primary Some (Suc 0))
     (init_parser [mk_token IDENTIFIER ''a'', mk_token MUL ''*'', mk_token IDENTIFIER ''b'',
                   mk_token DIV ''/'', mk_token IDENTIFIER ''c'', Token_EOF]) =
   Some (Inr (BinaryExpr ''/'' (BinaryExpr ''*'' (Identifier (Some ''a''))
      (Identifier (Some ''b'')))
      (Identifier (Some ''c''))),
         \<lparr>tokens = [mk_token IDENTIFIER ''a'', mk_token MUL ''*'', mk_token IDENTIFIER ''b'',
                   mk_token DIV ''/'', mk_token IDENTIFIER ''c'', Token_EOF],
          pos = 5, current_token = Token_EOF\<rparr>)"
  using
    binary_chains_are_left_associative
      [where pyfloat = Some and n = 0 and a = "''1''" and b = "''2''" and c = "''3''"
         and x = "Some ''1''" and y = "Some ''2''" and z = "Some ''3''",
       THEN conjunct2, THEN conjunct1]
    binary_chains_are_left_associative
      [where operand = "logical_and (equality (relational (additive (multiplicative (primary Some (Suc 0))))))"
         and self = "init_parser [mk_token IDENTIFIER ''a'', mk_token OR ''||'', mk_token IDENTIFIER ''b'',
                   mk_token OR ''||'', mk_token IDENTIFIER ''c'', Token_EOF]"
         and t = "BinaryExpr ''||'' (BinaryExpr ''||'' (Identifier (Some ''a''))
      (Identifier (Some ''b'')))
      (Identifier (Some ''c''))"
         and fin = "\<lparr>tokens = [mk_token IDENTIFIER ''a'', mk_token OR ''||'', mk_token IDENTIFIER ''b'',
                   mk_token OR ''||'', mk_token IDENTIFIER ''c'', Token_EOF],
          pos = 5, current_token = Token_EOF\<rparr>",
       THEN conjunct2, THEN conjunct2, THEN conjunct2, THEN conjunct1]
    binary_chains_are_left_associative
      [where operand = "equality (relational (additive (multiplicative (primary Some (Suc 0)))))"
         and self = "init_parser [mk_token IDENTIFIER ''a'', mk_token AND ''&&'',
                   mk_token IDENTIFIER ''b'', mk_token AND ''&&'',
                   mk_token IDENTIFIER ''c'', Token_EOF]"
         and t = "BinaryExpr ''&&'' (BinaryExpr ''&&'' (Identifier (Some ''a''))
      (Identifier (Some ''b'')))
      (Identifier (Some ''c''))"
         and fin = "\<lparr>tokens = [mk_token IDENTIFIER ''a'', mk_token AND ''&&'',
                   mk_token IDENTIFIER ''b'', mk_token AND ''&&'',
                   mk_token IDENTIFIER ''c'', Token_EOF],
          pos = 5, current_token = Token_EOF\<rparr>",
       THEN conjunct2, THEN conjunct2, THEN conjunct2, THEN conjunct2, THEN conjunct1]
    binary_chains_are_left_associative
      [where operand = "relational (additive (multiplicative (primary Some (Suc 0))))"
         and self = "init_parser [mk_token IDENTIFIER ''a'', mk_token EQ ''=='', mk_token IDENTIFIER ''b'',
                   mk_token NEQ ''!='', mk_token IDENTIFIER ''c'', Token_EOF]"
         and t = "BinaryExpr ''!='' (BinaryExpr ''=='' (Identifier (Some ''a''))
      (Identifier (Some ''b'')))
      (Identifier (Some ''c''))"
         and fin = "\<lparr>tokens = [mk_token IDENTIFIER ''a'', mk_token EQ ''=='', mk_token IDENTIFIER ''b'',
                   mk_token NEQ ''!='', mk_token IDENTIFIER ''c'', Token_EOF],
          pos = 5, current_token = Token_EOF\<rparr>",
       THEN conjunct2, THEN conjunct2, THEN conjunct2, THEN conjunct2, THEN conjunct2, THEN conjunct1]
    binary_chains_are_left_associative
      [where operand = "additive (multiplicative (primary Some (Suc 0)))"
         and self = "init_parser [mk_token IDENTIFIER ''a'', mk_token LT ''<'', mk_token IDENTIFIER ''b'',
                   mk_token GT ''>'', mk_token IDENTIFIER ''c'', mk_token LTE ''<='',
                   mk_token IDENTIFIER ''d'', mk_token GTE ''>='',
                   mk_token IDENTIFIER ''e'', Token_EOF]"
         and t = "BinaryExpr ''>='' (BinaryExpr ''<='' (BinaryExpr ''>'' (BinaryExpr ''<'' (Identifier (Some ''a''))
      (Identifier (Some ''b'')))
      (Identifier (Some ''c'')))
      (Identifier (Some ''d'')))
      (Identifier (Some ''e''))"
         and fin = "\<lparr>tokens = [mk_token IDENTIFIER ''a'', mk_token LT ''<'', mk_token IDENTIFIER ''b'',
                   mk_token GT ''>'', mk_token IDENTIFIER ''c'', mk_token LTE ''<='',
                   mk_token IDENTIFIER ''d'', mk_token GTE ''>='',
                   mk_token IDENTIFIER ''e'', Token_EOF],
          pos = 9, current_token = Token_EOF\<rparr>",
       THEN conjunct2, THEN conjunct2, THEN conjunct2, THEN conjunct2, THEN conjunct2, THEN conjunct2, THEN conjunct1]
    binary_chains_are_left_associative
      [where operand = "multiplicative (primary Some (Suc 0))"
         and self = "init_parser [mk_token IDENTIFIER ''a'', mk_token PLUS ''+'',
                   mk_token IDENTIFIER ''b'', mk_token MINUS ''-'',
                   mk_token IDENTIFIER ''c'', Token_EOF]"
         and t = "BinaryExpr ''-'' (BinaryExpr ''+'' (Identifier (Some ''a''))
      (Identifier (Some ''b'')))
      (Identifier (Some ''c''))"
         and fin = "\<lparr>tokens = [mk_token IDENTIFIER ''a'', mk_token PLUS ''+'',
                   mk_token IDENTIFIER ''b'', mk_token MINUS ''-'',
                   mk_token IDENTIFIER ''c'', Token_EOF],
          pos = 5, current_token = Token_EOF\<rparr>",
       THEN conjunct2, THEN conjunct2, THEN conjunct2, THEN conjunct2, THEN conjunct2, THEN conjunct2, THEN conjunct2, THEN conjunct1]
    binary_chains_are_left_associative
      [where operand = "primary Some (Suc 0)"
         and self = "init_parser [mk_token IDENTIFIER ''a'', mk_token MUL ''*'', mk_token IDENTIFIER ''b'',
                   mk_token DIV ''/'', mk_token IDENTIFIER ''c'', Token_EOF]"
         and t = "BinaryExpr ''/'' (BinaryExpr ''*'' (Identifier (Some ''a''))
      (Identifier (Some ''b'')))
      (Identifier (Some ''c''))"
         and fin = "\<lparr>tokens = [mk_token IDENTIFIER ''a'', mk_token MUL ''*'', mk_token IDENTIFIER ''b'',
                   mk_token DIV ''/'', mk_token IDENTIFIER ''c'', Token_EOF],
          pos = 5, current_token = Token_EOF\<rparr>",
       THEN conjunct2, THEN conjunct2, THEN conjunct2, THEN conjunct2, THEN conjunct2, THEN conjunct2, THEN conjunct2, THEN conjunct2]
  by (simp add: cursor_defs rule_defs op_at_def fold_left_def)

end
